theory Spec2Isabelle
  imports Main "HOL-Library.Sublist"
begin

section \<open>Second Brain: the record store, the classifier and the conversion pipeline\<close>

text \<open>
  The program is \<^verbatim>\<open>src/app.js\<close>. A function below carries the name of the JavaScript
  function it embeds; where the body of one is given in parts, the text says which. What
  JavaScript reads from its surroundings (the clock, the id generator, the content of the
  local storage, the text typed into a prompt) is an explicit argument; what it writes
  (the global \<^verbatim>\<open>state\<close>, the toasts shown to the user) is returned. Rendering into the
  page and writing to the local storage are not modelled.
\<close>

subsection \<open>Strings\<close>

text \<open>
  A JavaScript string is a sequence of UTF-16 code units. A \<^typ>\<open>char\<close> stands for one code
  unit below 256 (Latin-1 text), so \<^const>\<open>length\<close> is \<^verbatim>\<open>.length\<close> and \<^const>\<open>take\<close> is
  \<^verbatim>\<open>.substring(0, n)\<close>. On these code units \<^verbatim>\<open>toLowerCase\<close> maps \<^verbatim>\<open>A-Z\<close> and the
  accented capitals \<^verbatim>\<open>U+00C0-U+00DE\<close> (the multiplication sign \<^verbatim>\<open>U+00D7\<close> apart) 32 places
  up and leaves every other code unit alone.
\<close>

definition toLowerChar :: "char \<Rightarrow> char" where
  "toLowerChar c =
     (let n = (of_char c :: nat)
      in if (65 \<le> n \<and> n \<le> 90) \<or> (192 \<le> n \<and> n \<le> 222 \<and> n \<noteq> 215)
         then char_of (n + 32) else c)"

definition toLowerCase :: "string \<Rightarrow> string" where
  "toLowerCase s = map toLowerChar s"

text \<open>\<^verbatim>\<open>s.includes(k)\<close>: \<open>k\<close> occurs in \<open>s\<close> at some position.\<close>

fun includes_str :: "string \<Rightarrow> string \<Rightarrow> bool" where
  "includes_str [] k = (k = [])"
| "includes_str (c # cs) k = (prefix k (c # cs) \<or> includes_str cs k)"

text \<open>
  \<^verbatim>\<open>s.trim()\<close> removes white space at both ends; below 256 the white space and line
  terminator code units are tab, line feed, vertical tab, form feed, carriage return,
  space and the no-break space.
\<close>

definition isWhiteSpace :: "char \<Rightarrow> bool" where
  "isWhiteSpace c = ((of_char c :: nat) \<in> {9, 10, 11, 12, 13, 32, 160})"

definition trim :: "string \<Rightarrow> string" where
  "trim s = rev (dropWhile isWhiteSpace (rev (dropWhile isWhiteSpace s)))"

subsection \<open>Identifiers\<close>

text \<open>
  \<^verbatim>\<open>generateId()\<close> is \<^verbatim>\<open>Date.now().toString(36) + Math.random().toString(36).substr(2)\<close>.
  \<open>ms\<close> is the clock's reading, a whole number of milliseconds, and \<open>toString36\<close> its
  numeral to the base 36, with the digits \<^verbatim>\<open>0-9\<close> and \<^verbatim>\<open>a-z\<close>. \<open>fraction\<close> is the second
  summand: the digits that follow \<^verbatim>\<open>0.\<close> in the base-36 numeral of the random number, for
  example \<^verbatim>\<open>i\<close> when the random number is one half.
\<close>

definition digits36 :: string where
  "digits36 = ''0123456789abcdefghijklmnopqrstuvwxyz''"

fun toString36 :: "nat \<Rightarrow> string" where
  "toString36 n =
     (if n < 36 then [digits36 ! n]
      else toString36 (n div 36) @ [digits36 ! (n mod 36)])"

declare toString36.simps [simp del]

definition generateId :: "nat \<Rightarrow> string \<Rightarrow> string" where
  "generateId ms fraction = toString36 ms @ fraction"

subsection \<open>Records of the store\<close>

text \<open>
  A field that JavaScript may leave out, set to \<^verbatim>\<open>null\<close> or set to a value has three
  states.
\<close>

datatype 'a nullable = Undefined | Null | Defined 'a

record inbox_item =
  inbox_id :: string
  inbox_text :: string
  inbox_type :: string
  inbox_status :: string
  inbox_createdAt :: string
  inbox_aiSummary :: string

record task =
  task_id :: string
  task_text :: string
  task_completed :: bool
  task_priority :: string
  task_dueDate :: "string nullable"
  task_project :: "string nullable"
  task_context :: "string list"
  task_createdAt :: string
  task_completedAt :: "string nullable"

record idea =
  idea_id :: string
  idea_text :: string
  idea_category :: string
  idea_potential :: int
  idea_status :: string
  idea_createdAt :: string

record project =
  project_id :: string
  project_name :: string
  project_description :: string
  project_status :: string
  project_progress :: int
  project_tasks :: int
  project_createdAt :: string

record contact =
  contact_id :: string
  contact_name :: string
  contact_company :: string
  contact_relationship :: string
  contact_email :: string
  contact_phone :: string
  contact_lastContact :: "string nullable"
  contact_nextFollowUp :: "string nullable"
  contact_notes :: string
  contact_createdAt :: string

record settings =
  darkMode :: bool
  apiKey :: string

record store =
  inbox :: "inbox_item list"
  projects :: "project list"
  tasks :: "task list"
  ideas :: "idea list"
  contacts :: "contact list"
  settings :: settings

text \<open>
  The application: the global \<^verbatim>\<open>state\<close> and the toasts shown so far, each a message with
  its type (\<^verbatim>\<open>showToast(message, type)\<close>). A message is kept up to its last Latin-1
  character; the emoji that ends some of them is left out.
\<close>

type_synonym toast = "string \<times> string"

record 's app =
  state :: 's
  toasts :: "toast list"

definition showToast :: "string \<Rightarrow> string \<Rightarrow> 's app \<Rightarrow> 's app" where
  "showToast message ty a = a\<lparr>toasts := toasts a @ [(message, ty)]\<rparr>"

text \<open>
  \<^verbatim>\<open>xs.find(p)\<close> is \<^const>\<open>List.find\<close>: the first element that satisfies \<open>p\<close>. The
  element found is an object of the array, and an assignment to one of its fields changes
  the array at that position: \<open>mutateFirst p f xs\<close> applies \<open>f\<close> to the first element
  that satisfies \<open>p\<close>.
\<close>

fun mutateFirst :: "('a \<Rightarrow> bool) \<Rightarrow> ('a \<Rightarrow> 'a) \<Rightarrow> 'a list \<Rightarrow> 'a list" where
  "mutateFirst p f [] = []"
| "mutateFirst p f (x # xs) = (if p x then f x # xs else x # mutateFirst p f xs)"

subsection \<open>Capture\<close>

text \<open>
  \<^verbatim>\<open>addToInbox(text = null, type = 'thought')\<close>. \<open>gid\<close> is what \<^verbatim>\<open>generateId()\<close> returns
  and \<open>now\<close> what \<^verbatim>\<open>new Date().toISOString()\<close> returns; \<open>input\<close> is the value of the
  page's input field, \<open>None\<close> when the page has no such field. The function also sets a
  timer that calls \<^verbatim>\<open>classifyInboxItem\<close> on the new item's id half a second later.
\<close>

definition addToInbox ::
  "string \<Rightarrow> string \<Rightarrow> string option \<Rightarrow> string option \<Rightarrow> string option \<Rightarrow> store app \<Rightarrow> store app" where
  "addToInbox gid now text ty input a =
     (let itemText = (case text of Some t \<Rightarrow> if t \<noteq> [] then t else (case input of Some v \<Rightarrow> trim v | None \<Rightarrow> [])
                                 | None \<Rightarrow> (case input of Some v \<Rightarrow> trim v | None \<Rightarrow> []))
      in if itemText = [] then a
         else let item = \<lparr>inbox_id = gid, inbox_text = itemText,
                           inbox_type = (case ty of None \<Rightarrow> ''thought'' | Some t \<Rightarrow> t),
                           inbox_status = ''new'', inbox_createdAt = now, inbox_aiSummary = []\<rparr>
              in showToast ''Captured!'' ''success''
                   (a\<lparr>state := (state a)\<lparr>inbox := inbox (state a) @ [item]\<rparr>\<rparr>))"

subsection \<open>The classifier\<close>

text \<open>
  The body of \<^verbatim>\<open>classifyInboxItem\<close> once the item is found: the three keyword groups in
  the order of the \<^verbatim>\<open>if / else if\<close> chain, then the summary.
\<close>

definition classifyType :: "inbox_item \<Rightarrow> inbox_item" where
  "classifyType item =
     (let text = toLowerCase (inbox_text item)
      in if includes_str text ''task:'' \<or> includes_str text ''todo:'' \<or> includes_str text ''need to''
            \<or> includes_str text ''must'' \<or> includes_str text ''should''
         then item\<lparr>inbox_type := ''task''\<rparr>
         else if includes_str text ''idea:'' \<or> includes_str text ''what if'' \<or> includes_str text ''maybe''
            \<or> includes_str text ''could''
         then item\<lparr>inbox_type := ''idea''\<rparr>
         else if includes_str text ''http://'' \<or> includes_str text ''https://'' \<or> includes_str text ''.com''
            \<or> includes_str text ''.org''
         then item\<lparr>inbox_type := ''link''\<rparr>
         else item)"

definition classifySummary :: "inbox_item \<Rightarrow> inbox_item" where
  "classifySummary item =
     (if length (inbox_text item) > 50
      then item\<lparr>inbox_aiSummary := take 47 (inbox_text item) @ ''...''\<rparr>
      else item)"

definition classifyItem :: "inbox_item \<Rightarrow> inbox_item" where
  "classifyItem item = classifySummary (classifyType item)"

text \<open>
  \<^verbatim>\<open>classifyInboxItem(id)\<close>: nothing happens when no inbox item has the id; otherwise the
  item found is classified in place.
\<close>

definition classifyInboxItem :: "string \<Rightarrow> store app \<Rightarrow> store app" where
  "classifyInboxItem iid a =
     (case List.find (\<lambda>i. inbox_id i = iid) (inbox (state a)) of
        None \<Rightarrow> a
      | Some item \<Rightarrow>
          a\<lparr>state := (state a)\<lparr>inbox :=
               mutateFirst (\<lambda>i. inbox_id i = iid) classifyItem (inbox (state a))\<rparr>\<rparr>)"

subsection \<open>Conversion\<close>

definition convertInboxToTask :: "string \<Rightarrow> string \<Rightarrow> string \<Rightarrow> store app \<Rightarrow> store app" where
  "convertInboxToTask gid now iid a =
     (case List.find (\<lambda>i. inbox_id i = iid) (inbox (state a)) of
        None \<Rightarrow> a
      | Some item \<Rightarrow>
          let task = \<lparr>task_id = gid, task_text = inbox_text item, task_completed = False,
                      task_priority = ''medium'', task_dueDate = Null, task_project = Null,
                      task_context = [], task_createdAt = now, task_completedAt = Undefined\<rparr>
          in showToast ''Converted to task!'' ''success''
               (a\<lparr>state := (state a)\<lparr>tasks := tasks (state a) @ [task],
                                      inbox := filter (\<lambda>i. inbox_id i \<noteq> iid) (inbox (state a))\<rparr>\<rparr>))"

definition convertInboxToIdea :: "string \<Rightarrow> string \<Rightarrow> string \<Rightarrow> store app \<Rightarrow> store app" where
  "convertInboxToIdea gid now iid a =
     (case List.find (\<lambda>i. inbox_id i = iid) (inbox (state a)) of
        None \<Rightarrow> a
      | Some item \<Rightarrow>
          let idea = \<lparr>idea_id = gid, idea_text = inbox_text item, idea_category = ''general'',
                      idea_potential = 2, idea_status = ''new'', idea_createdAt = now\<rparr>
          in showToast ''Converted to idea!'' ''success''
               (a\<lparr>state := (state a)\<lparr>ideas := ideas (state a) @ [idea],
                                      inbox := filter (\<lambda>i. inbox_id i \<noteq> iid) (inbox (state a))\<rparr>\<rparr>))"

definition deleteInboxItem :: "string \<Rightarrow> store app \<Rightarrow> store app" where
  "deleteInboxItem iid a =
     showToast ''Deleted'' ''info''
       (a\<lparr>state := (state a)\<lparr>inbox := filter (\<lambda>i. inbox_id i \<noteq> iid) (inbox (state a))\<rparr>\<rparr>)"

subsection \<open>Tasks\<close>

text \<open>
  \<open>input\<close> is the text of the quick-task field; \<open>answer\<close> is what \<^verbatim>\<open>prompt\<close> returns,
  \<open>None\<close> when the user cancels.
\<close>

definition addQuickTask :: "string \<Rightarrow> string \<Rightarrow> string \<Rightarrow> store app \<Rightarrow> store app" where
  "addQuickTask gid now input a =
     (let text = trim input
      in if text = [] then a
         else let task = \<lparr>task_id = gid, task_text = text, task_completed = False,
                           task_priority = ''medium'', task_dueDate = Null, task_project = Null,
                           task_context = [], task_createdAt = now, task_completedAt = Undefined\<rparr>
              in showToast ''Task added!'' ''success''
                (a\<lparr>state := (state a)\<lparr>tasks := tasks (state a) @ [task]\<rparr>\<rparr>))"

definition showAddTaskModal :: "string \<Rightarrow> string \<Rightarrow> string option \<Rightarrow> store app \<Rightarrow> store app" where
  "showAddTaskModal gid now answer a =
     (case answer of
        None \<Rightarrow> a
      | Some text \<Rightarrow>
          if text \<noteq> [] \<and> trim text \<noteq> []
          then let task = \<lparr>task_id = gid, task_text = trim text, task_completed = False,
                            task_priority = ''medium'', task_dueDate = Null, task_project = Null,
                            task_context = [], task_createdAt = now, task_completedAt = Undefined\<rparr>
               in showToast ''Task added!'' ''success''
                    (a\<lparr>state := (state a)\<lparr>tasks := tasks (state a) @ [task]\<rparr>\<rparr>)
          else a)"

text \<open>The two assignments of \<^verbatim>\<open>toggleTask\<close> to the task it finds.\<close>

definition toggle :: "string \<Rightarrow> task \<Rightarrow> task" where
  "toggle now t =
     (let c = \<not> task_completed t
      in t\<lparr>task_completed := c, task_completedAt := (if c then Defined now else Null)\<rparr>)"

definition toggleTask :: "string \<Rightarrow> string \<Rightarrow> store app \<Rightarrow> store app" where
  "toggleTask now tid a =
     (case List.find (\<lambda>t. task_id t = tid) (tasks (state a)) of
        None \<Rightarrow> a
      | Some t \<Rightarrow>
          let a' = a\<lparr>state := (state a)\<lparr>tasks :=
                       mutateFirst (\<lambda>t. task_id t = tid) (toggle now) (tasks (state a))\<rparr>\<rparr>
          in if task_completed (toggle now t) then showToast ''Task completed! '' ''success'' a'
             else a')"

definition deleteTask :: "string \<Rightarrow> store app \<Rightarrow> store app" where
  "deleteTask tid a =
     showToast ''Task deleted'' ''info''
       (a\<lparr>state := (state a)\<lparr>tasks := filter (\<lambda>t. task_id t \<noteq> tid) (tasks (state a))\<rparr>\<rparr>)"

definition editTask :: "string option \<Rightarrow> string \<Rightarrow> store app \<Rightarrow> store app" where
  "editTask answer tid a =
     (case List.find (\<lambda>t. task_id t = tid) (tasks (state a)) of
        None \<Rightarrow> a
      | Some t \<Rightarrow>
          (case answer of
             None \<Rightarrow> a
           | Some newText \<Rightarrow>
               if newText \<noteq> [] \<and> trim newText \<noteq> []
               then showToast ''Task updated!'' ''success''
                      (a\<lparr>state := (state a)\<lparr>tasks :=
                           mutateFirst (\<lambda>t. task_id t = tid) (\<lambda>t. t\<lparr>task_text := trim newText\<rparr>)
                             (tasks (state a))\<rparr>\<rparr>)
               else a))"

subsection \<open>Due status\<close>










subsection \<open>The persisted store: load and import\<close>

text \<open>
  What \<^verbatim>\<open>JSON.parse\<close> returns is a JSON value; its numbers are of a type \<open>'n\<close> that load
  and import never look into. An object lists its keys with their values; where a key is
  listed twice the later entry counts. \<open>JSON_parse s\<close> is \<open>None\<close> when \<^verbatim>\<open>JSON.parse(s)\<close>
  throws.
\<close>

datatype 'n json =
    JNull
  | JBool bool
  | JNum 'n
  | JStr string
  | JArr "'n json list"
  | JObj "(string \<times> 'n json) list"

type_synonym 'n jsobject = "string \<rightharpoonup> 'n json"

text \<open>The decimal numeral of an array index, the key under which the element is kept.\<close>

fun indexKey :: "nat \<Rightarrow> string" where
  "indexKey n =
     (if n < 10 then [char_of (48 + n)]
      else indexKey (n div 10) @ [char_of (48 + n mod 10)])"

text \<open>
  The own enumerable properties that the spread \<^verbatim>\<open>...v\<close> copies: the entries of an
  object, the elements of an array and the characters of a string under their indices,
  nothing for \<^verbatim>\<open>null\<close>, a boolean or a number.
\<close>

fun ownEntries :: "'n json \<Rightarrow> (string \<times> 'n json) list" where
  "ownEntries (JObj kvs) = kvs"
| "ownEntries (JArr xs) = zip (map indexKey [0..<length xs]) xs"
| "ownEntries (JStr s) = zip (map indexKey [0..<length s]) (map (\<lambda>c. JStr [c]) s)"
| "ownEntries v = []"

text \<open>\<^verbatim>\<open>{ ...d, ...v }\<close>: a copy of \<open>d\<close> in which the properties of \<open>v\<close> are then set, in order.\<close>

definition spread :: "'n jsobject \<Rightarrow> 'n json \<Rightarrow> 'n jsobject" where
  "spread d v = foldl (\<lambda>m (k, x). m(k \<mapsto> x)) d (ownEntries v)"

text \<open>The object literal \<^verbatim>\<open>defaultData\<close>.\<close>

definition defaultData :: "'n jsobject" where
  "defaultData =
     [''inbox'' \<mapsto> JArr [], ''projects'' \<mapsto> JArr [], ''tasks'' \<mapsto> JArr [], ''ideas'' \<mapsto> JArr [],
      ''contacts'' \<mapsto> JArr [],
      ''settings'' \<mapsto> JObj [(''darkMode'', JBool True), (''apiKey'', JStr [])]]"

text \<open>
  \<^verbatim>\<open>loadData()\<close>. \<open>got\<close> is the outcome of \<^verbatim>\<open>localStorage.getItem(DB_KEY)\<close>: it throws, or
  it returns \<^verbatim>\<open>null\<close> or a string. \<open>d\<close> is the object that the global \<^verbatim>\<open>defaultData\<close>
  holds when the function runs. The program calls \<^verbatim>\<open>loadData\<close> once, to initialise
  \<^verbatim>\<open>state\<close> while the module is loaded, when that object is still the literal above. Later
  it need not be: \<^verbatim>\<open>loadData\<close> returns the object itself when nothing is stored, and
  whatever the program then puts into \<^verbatim>\<open>state\<close> it puts into \<^verbatim>\<open>defaultData\<close>.
\<close>

datatype 'a outcome = Throws | Returns 'a

definition loadData :: "'n jsobject \<Rightarrow> (string \<Rightarrow> 'n json option) \<Rightarrow> string option outcome \<Rightarrow> 'n jsobject" where
  "loadData d JSON_parse got =
     (case got of
        Throws \<Rightarrow> d
      | Returns None \<Rightarrow> d
      | Returns (Some stored) \<Rightarrow>
          if stored = [] then d
          else (case JSON_parse stored of
                  None \<Rightarrow> d
                | Some v \<Rightarrow> spread d v))"

subsection \<open>The objects behind the store\<close>

text \<open>
  \<^verbatim>\<open>loadData\<close> above gives the value of the store. JavaScript holds that value in objects
  and arrays that have an identity: \<^verbatim>\<open>loadData\<close> returns the object \<^verbatim>\<open>defaultData\<close> itself
  when it falls back, the spread \<^verbatim>\<open>{ ...defaultData, ...v }\<close> copies the properties of
  \<^verbatim>\<open>defaultData\<close> with the very arrays they hold, and \<^verbatim>\<open>push\<close> changes an array for
  everyone who holds it. So the memory is modelled: objects and arrays live at addresses,
  a property holds the address of an array or a plain value, and \<^verbatim>\<open>state\<close> holds the
  address of an object. The object \<^verbatim>\<open>defaultData\<close> is at address 0. The settings are kept
  as a plain value: no operation below changes them.
\<close>

datatype 'n slot = Arr nat | Val "'n json"

type_synonym 'n object = "string \<rightharpoonup> 'n slot"

record 'n session =
  objects :: "nat \<Rightarrow> 'n object"
  arrays :: "nat \<Rightarrow> 'n json list"
  nextFree :: nat
  stateRef :: nat
  shown :: "toast list"

text \<open>
  The memory once \<^verbatim>\<open>const defaultData = { ... }\<close> has run: the object with its five empty
  arrays, each an array of its own.
\<close>

definition moduleLoaded :: "'n session" where
  "moduleLoaded =
     \<lparr>objects = (\<lambda>r. Map.empty)
        (0 := [''inbox'' \<mapsto> Arr 1, ''projects'' \<mapsto> Arr 2, ''tasks'' \<mapsto> Arr 3, ''ideas'' \<mapsto> Arr 4,
               ''contacts'' \<mapsto> Arr 5,
               ''settings'' \<mapsto> Val (JObj [(''darkMode'', JBool True), (''apiKey'', JStr [])])]),
      arrays = (\<lambda>a. []), nextFree = 6, stateRef = 0, shown = []\<rparr>"

text \<open>The JSON value of a property, and of the object at an address.\<close>

definition valueOf :: "(nat \<Rightarrow> 'n json list) \<Rightarrow> 'n slot \<Rightarrow> 'n json" where
  "valueOf arrs v = (case v of Arr a \<Rightarrow> JArr (arrs a) | Val x \<Rightarrow> x)"

definition contents :: "'n session \<Rightarrow> nat \<Rightarrow> 'n jsobject" where
  "contents s r = (\<lambda>k. map_option (valueOf (arrays s)) (objects s r k))"

definition stateValue :: "'n session \<Rightarrow> 'n jsobject" where
  "stateValue s = contents s (stateRef s)"

text \<open>
  \<^verbatim>\<open>{ ...defaultData, ...v }\<close> in this memory: a new object that starts with the properties
  of \<^verbatim>\<open>defaultData\<close> as they are now, in which the properties of \<open>v\<close> are then set; an
  array of the parsed value \<open>v\<close> is a new array. \<open>spreadNew\<close> also assigns the new object to
  \<^verbatim>\<open>state\<close>.
\<close>

definition setProperty ::
  "'n object \<times> (nat \<Rightarrow> 'n json list) \<times> nat \<Rightarrow> string \<times> 'n json
     \<Rightarrow> 'n object \<times> (nat \<Rightarrow> 'n json list) \<times> nat" where
  "setProperty m e =
     (case m of (obj, arrs, n) \<Rightarrow>
        (case e of (k, x) \<Rightarrow>
           (case x of
              JArr xs \<Rightarrow> (obj(k \<mapsto> Arr n), arrs(n := xs), Suc n)
            | _ \<Rightarrow> (obj(k \<mapsto> Val x), arrs, n))))"

definition spreadNew :: "'n session \<Rightarrow> 'n json \<Rightarrow> 'n session" where
  "spreadNew s v =
     (case foldl setProperty (objects s 0, arrays s, Suc (nextFree s)) (ownEntries v) of
        (obj, arrs, n) \<Rightarrow>
          s\<lparr>objects := (objects s)(nextFree s := obj), arrays := arrs, nextFree := n,
            stateRef := nextFree s\<rparr>)"

text \<open>
  The declaration \<^verbatim>\<open>let state = loadData()\<close>: where \<^verbatim>\<open>loadData\<close> returns \<^verbatim>\<open>defaultData\<close>,
  \<^verbatim>\<open>state\<close> holds the address of that object.
\<close>

definition startup :: "(string \<Rightarrow> 'n json option) \<Rightarrow> string option outcome \<Rightarrow> 'n session" where
  "startup JSON_parse got =
     (case got of
        Throws \<Rightarrow> moduleLoaded
      | Returns None \<Rightarrow> moduleLoaded
      | Returns (Some stored) \<Rightarrow>
          if stored = [] then moduleLoaded
          else (case JSON_parse stored of
                  None \<Rightarrow> moduleLoaded
                | Some v \<Rightarrow> spreadNew moduleLoaded v))"

text \<open>
  The statement \<^verbatim>\<open>state.inbox.push(item)\<close> of \<^verbatim>\<open>addToInbox\<close>; \<open>None\<close> when
  \<^verbatim>\<open>state.inbox\<close> is no array and the call throws. \<open>inboxItemJson\<close> is the item as an
  object.
\<close>

definition pushInbox :: "'n json \<Rightarrow> 'n session \<Rightarrow> 'n session option" where
  "pushInbox item s =
     (case objects s (stateRef s) ''inbox'' of
        Some (Arr a) \<Rightarrow> Some (s\<lparr>arrays := (arrays s)(a := arrays s a @ [item])\<rparr>)
      | _ \<Rightarrow> None)"

definition inboxItemJson :: "inbox_item \<Rightarrow> 'n json" where
  "inboxItemJson i =
     JObj [(''id'', JStr (inbox_id i)), (''text'', JStr (inbox_text i)), (''type'', JStr (inbox_type i)),
           (''status'', JStr (inbox_status i)), (''createdAt'', JStr (inbox_createdAt i)),
           (''aiSummary'', JStr (inbox_aiSummary i))]"

text \<open>
  The \<^verbatim>\<open>change\<close> handler of the import field, with the \<^verbatim>\<open>onload\<close> handler of its file
  reader. \<open>file\<close> is the text of the chosen file, \<open>None\<close> when no file was chosen.
  \<open>navigateOk v\<close> tells whether \<^verbatim>\<open>navigateTo('dashboard')\<close> returns when \<^verbatim>\<open>state\<close> has the
  value \<open>v\<close>; when it throws, the \<^verbatim>\<open>catch\<close> clause shows the same toast as for a text that
  does not parse. \<open>shown\<close> are the toasts.
\<close>

definition importFile_change ::
  "(string \<Rightarrow> 'n json option) \<Rightarrow> ('n jsobject \<Rightarrow> bool) \<Rightarrow> string option
     \<Rightarrow> 'n session \<Rightarrow> 'n session" where
  "importFile_change JSON_parse navigateOk file s =
     (case file of
        None \<Rightarrow> s
      | Some content \<Rightarrow>
          (case JSON_parse content of
             None \<Rightarrow> s\<lparr>shown := shown s @ [(''Invalid file format'', ''error'')]\<rparr>
           | Some data \<Rightarrow>
               let s' = spreadNew s data
               in if navigateOk (contents s' (stateRef s'))
                  then s'\<lparr>shown := shown s' @ [(''Data imported!'', ''success'')]\<rparr>
                  else s'\<lparr>shown := shown s' @ [(''Invalid file format'', ''error'')]\<rparr>))"

text \<open>
  In a memory that these operations produce, the arrays of \<^verbatim>\<open>defaultData\<close> lie below the
  next free address.
\<close>

definition sound :: "'n session \<Rightarrow> bool" where
  "sound s = (0 < nextFree s \<and> (\<forall>k a. objects s 0 k = Some (Arr a) \<longrightarrow> a < nextFree s))"

subsection \<open>The classifier as the specification words it\<close>

text \<open>
  The specification's \<open>classify\<close>: the lowercased text is searched for the markers of
  three groups in turn, and the first group with a marker in the text gives the type;
  \<open>ty\<close> is the type the item had. \<^const>\<open>sublist\<close> is the library's notion of one list
  occurring inside another.
\<close>

definition containsAny :: "string \<Rightarrow> string list \<Rightarrow> bool" where
  "containsAny t ks = list_ex (\<lambda>k. sublist k t) ks"

definition classify_spec :: "string \<Rightarrow> string \<Rightarrow> string" where
  "classify_spec text ty =
     (let t = toLowerCase text
      in if containsAny t [''task:'', ''todo:'', ''need to'', ''must'', ''should''] then ''task''
         else if containsAny t [''idea:'', ''what if'', ''maybe'', ''could''] then ''idea''
         else if containsAny t [''http://'', ''https://'', ''.com'', ''.org''] then ''link''
         else ty)"

subsection \<open>The invariant of a task\<close>

text \<open>
  \<^verbatim>\<open>completedAt\<close> is set when it holds a value, neither missing nor \<^verbatim>\<open>null\<close>; the
  invariant of the data model is that it is set exactly when the task is completed.
\<close>

definition isSet :: "'a nullable \<Rightarrow> bool" where
  "isSet v = (case v of Defined x \<Rightarrow> True | Null \<Rightarrow> False | Undefined \<Rightarrow> False)"

definition completedAt_ok :: "task \<Rightarrow> bool" where
  "completedAt_ok t = (isSet (task_completedAt t) = task_completed t)"

subsection \<open>Calendar days\<close>


subsection \<open>Example data\<close>

definition exampleItem :: inbox_item where
  "exampleItem =
     \<lparr>inbox_id = ''lq1a0001x7'', inbox_text = ''need to check http://x.com'',
      inbox_type = ''thought'', inbox_status = ''new'',
      inbox_createdAt = ''2024-01-15T10:00:00.000Z'', inbox_aiSummary = []\<rparr>"

definition longItem :: inbox_item where
  "longItem =
     \<lparr>inbox_id = ''lq1a0002k3'',
      inbox_text = ''Maybe we COULD write the whole report before the Friday meeting'',
      inbox_type = ''thought'', inbox_status = ''new'',
      inbox_createdAt = ''2024-01-15T10:05:00.000Z'', inbox_aiSummary = []\<rparr>"

definition exampleStore :: store where
  "exampleStore =
     \<lparr>inbox = [exampleItem, longItem], projects = [], tasks = [], ideas = [], contacts = [],
      settings = \<lparr>darkMode = True, apiKey = []\<rparr>\<rparr>"

definition exampleApp :: "store app" where
  "exampleApp = \<lparr>state = exampleStore, toasts = []\<rparr>"

text \<open>
  Two inbox items with one id: the program never checks an id it reads from the local
  storage or from an imported file, so such a store can be loaded.
\<close>

definition dupItemA :: inbox_item where
  "dupItemA = \<lparr>inbox_id = ''dup'', inbox_text = ''call the bank'', inbox_type = ''thought'',
               inbox_status = ''new'', inbox_createdAt = ''2024-01-15T10:00:00.000Z'',
               inbox_aiSummary = []\<rparr>"

definition dupItemB :: inbox_item where
  "dupItemB = \<lparr>inbox_id = ''dup'', inbox_text = ''water the plants'', inbox_type = ''thought'',
               inbox_status = ''new'', inbox_createdAt = ''2024-01-16T08:30:00.000Z'',
               inbox_aiSummary = []\<rparr>"

definition dupApp :: "store app" where
  "dupApp = \<lparr>state = \<lparr>inbox = [dupItemA, dupItemB], projects = [], tasks = [], ideas = [],
                       contacts = [], settings = \<lparr>darkMode = True, apiKey = []\<rparr>\<rparr>,
            toasts = []\<rparr>"

text \<open>
  An inbox item whose id is the one that \<^verbatim>\<open>generateId()\<close> returns at 09:00:00 UTC on
  17 January 2024 when the random number is one half; the id of an item that comes from
  an imported file can be any string.
\<close>

definition clashItem :: inbox_item where
  "clashItem = \<lparr>inbox_id = ''lrhjy5c0i'', inbox_text = ''renew the passport'',
                inbox_type = ''thought'', inbox_status = ''new'',
                inbox_createdAt = ''2024-01-16T12:00:00.000Z'', inbox_aiSummary = []\<rparr>"

definition clashApp :: "store app" where
  "clashApp = \<lparr>state = \<lparr>inbox = [clashItem], projects = [], tasks = [], ideas = [],
                         contacts = [], settings = \<lparr>darkMode = True, apiKey = []\<rparr>\<rparr>,
              toasts = []\<rparr>"

definition doneTask :: task where
  "doneTask = \<lparr>task_id = ''lq1b0001aa'', task_text = ''pay the rent'', task_completed = True,
      task_priority = ''high'', task_dueDate = Defined ''2024-01-20'', task_project = Null,
      task_context = [], task_createdAt = ''2024-01-10T09:00:00.000Z'',
      task_completedAt = Defined ''2024-01-12T18:00:00.000Z''\<rparr>"

definition openTask :: task where
  "openTask = \<lparr>task_id = ''lq1b0002bb'', task_text = ''book the flights'', task_completed = False,
      task_priority = ''medium'', task_dueDate = Null, task_project = Null,
      task_context = [], task_createdAt = ''2024-01-11T09:00:00.000Z'',
      task_completedAt = Undefined\<rparr>"

definition taskApp :: "store app" where
  "taskApp = \<lparr>state = exampleStore\<lparr>tasks := [doneTask, openTask]\<rparr>, toasts = []\<rparr>"



definition exampleParse :: "string \<Rightarrow> int json option" where
  "exampleParse s =
     (if s = ''{\"tasks\":[],\"theme\":\"solar\"}''
      then Some (JObj [(''tasks'', JArr []), (''theme'', JStr ''solar'')])
      else if s = ''7'' then Some (JNum 7)
      else None)"

text \<open>
  A session: nothing is stored when the program starts, then the user captures an item,
  then imports a file that has no inbox.
\<close>

definition alwaysOk :: "int jsobject \<Rightarrow> bool" where
  "alwaysOk s = True"

definition capturedItem :: inbox_item where
  "capturedItem = \<lparr>inbox_id = ''lrhjy5c0i'', inbox_text = ''buy milk'', inbox_type = ''thought'',
                   inbox_status = ''new'', inbox_createdAt = ''2024-01-17T09:00:00.000Z'',
                   inbox_aiSummary = []\<rparr>"

definition afterCapture :: "int session option" where
  "afterCapture = pushInbox (inboxItemJson capturedItem) (startup exampleParse (Returns None))"

definition importExample :: "int session \<Rightarrow> int session" where
  "importExample s =
     importFile_change exampleParse alwaysOk (Some ''{\"tasks\":[],\"theme\":\"solar\"}'') s"

section \<open>Properties\<close>

subsection \<open>Strings and lists\<close>

lemma includes_iff: "includes_str s k \<longleftrightarrow> (\<exists>p q. s = p @ k @ q)"
proof (induction s)
  case Nil
  then show ?case by auto
next
  case (Cons c cs)
  show ?case
  proof
    assume "includes_str (c # cs) k"
    then consider "prefix k (c # cs)" | "includes_str cs k" by auto
    then show "\<exists>p q. c # cs = p @ k @ q"
    proof cases
      case 1
      then obtain q where "c # cs = k @ q" by (auto simp: prefix_def)
      then have "c # cs = [] @ k @ q" by simp
      then show ?thesis by blast
    next
      case 2
      with Cons.IH obtain p q where "cs = p @ k @ q" by blast
      then have "c # cs = (c # p) @ k @ q" by simp
      then show ?thesis by blast
    qed
  next
    assume "\<exists>p q. c # cs = p @ k @ q"
    then obtain p q where pq: "c # cs = p @ k @ q" by blast
    show "includes_str (c # cs) k"
    proof (cases p)
      case Nil
      with pq have "prefix k (c # cs)" by (simp add: prefix_def)
      then show ?thesis by simp
    next
      case (Cons a p')
      with pq have "cs = p' @ k @ q" by simp
      with Cons.IH have "includes_str cs k" by blast
      then show ?thesis by simp
    qed
  qed
qed

lemma includes_str_sublist: "includes_str s k = sublist k s"
  by (simp add: includes_iff sublist_def)

lemma classifyType_eq:
  "classifyType item = item\<lparr>inbox_type := classify_spec (inbox_text item) (inbox_type item)\<rparr>"
proof -
  let ?t = "toLowerCase (inbox_text item)"
  let ?A = "containsAny ?t [''task:'', ''todo:'', ''need to'', ''must'', ''should'']"
  let ?B = "containsAny ?t [''idea:'', ''what if'', ''maybe'', ''could'']"
  let ?C = "containsAny ?t [''http://'', ''https://'', ''.com'', ''.org'']"
  have "classifyType item =
      (if ?A then item\<lparr>inbox_type := ''task''\<rparr>
       else if ?B then item\<lparr>inbox_type := ''idea''\<rparr>
       else if ?C then item\<lparr>inbox_type := ''link''\<rparr>
       else item)"
    by (simp only: classifyType_def Let_def containsAny_def includes_str_sublist list_ex_Nil_iff list_ex_Cons_iff simp_thms)
  also have "\<dots> = item\<lparr>inbox_type := classify_spec (inbox_text item) (inbox_type item)\<rparr>"
    by (cases ?A; cases ?B; cases ?C) (simp_all add: classify_spec_def)
  finally show ?thesis .
qed

lemma classify_spec_idem: "classify_spec text (classify_spec text ty) = classify_spec text ty"
proof -
  let ?t = "toLowerCase text"
  let ?A = "containsAny ?t [''task:'', ''todo:'', ''need to'', ''must'', ''should'']"
  let ?B = "containsAny ?t [''idea:'', ''what if'', ''maybe'', ''could'']"
  let ?C = "containsAny ?t [''http://'', ''https://'', ''.com'', ''.org'']"
  show ?thesis
    by (cases ?A; cases ?B; cases ?C) (simp_all add: classify_spec_def)
qed

lemma classifySummary_eq:
  "classifySummary item =
     item\<lparr>inbox_aiSummary :=
            (if length (inbox_text item) > 50 then take 47 (inbox_text item) @ ''...''
             else inbox_aiSummary item)\<rparr>"
  by (simp add: classifySummary_def)

lemma classifyItem_eq:
  "classifyItem item =
     item\<lparr>inbox_type := classify_spec (inbox_text item) (inbox_type item),
          inbox_aiSummary :=
            (if length (inbox_text item) > 50 then take 47 (inbox_text item) @ ''...''
             else inbox_aiSummary item)\<rparr>"
  by (simp only: classifyItem_def classifyType_eq classifySummary_eq) simp

lemma toLowerCase_append: "toLowerCase (a @ b) = toLowerCase a @ toLowerCase b"
  by (simp add: toLowerCase_def)

lemma sublist_toLowerCase: "sublist k (toLowerCase t) \<longleftrightarrow> (\<exists>p w q. t = p @ w @ q \<and> toLowerCase w = k)"
proof
  assume "sublist k (toLowerCase t)"
  then obtain ps ss where "map toLowerChar t = ps @ k @ ss"
    by (auto simp: sublist_def toLowerCase_def)
  then have "\<exists>us vs. t = us @ vs \<and> ps = map toLowerChar us \<and> k @ ss = map toLowerChar vs"
    by (simp only: map_eq_append_conv)
  then obtain p r where t: "t = p @ r" and "map toLowerChar r = k @ ss"
    by metis
  then have "\<exists>us vs. r = us @ vs \<and> k = map toLowerChar us \<and> ss = map toLowerChar vs"
    by (simp only: map_eq_append_conv)
  then obtain w q where "r = w @ q" and "map toLowerChar w = k"
    by metis
  with t have "t = p @ w @ q \<and> toLowerCase w = k"
    by (simp add: toLowerCase_def)
  then show "\<exists>p w q. t = p @ w @ q \<and> toLowerCase w = k" by blast
next
  assume "\<exists>p w q. t = p @ w @ q \<and> toLowerCase w = k"
  then obtain p w q where "t = p @ w @ q" and "toLowerCase w = k" by blast
  then have "toLowerCase t = toLowerCase p @ k @ toLowerCase q"
    by (simp add: toLowerCase_def)
  then show "sublist k (toLowerCase t)"
    unfolding sublist_def by blast
qed

lemma length_mutateFirst: "length (mutateFirst p f xs) = length xs"
  by (induction xs) auto

lemma mutateFirst_none: "List.find p xs = None \<Longrightarrow> mutateFirst p f xs = xs"
  by (induction xs) (auto split: if_splits)

lemma mutateFirst_some:
  "List.find p xs = Some x \<Longrightarrow>
     \<exists>pre post. xs = pre @ x # post \<and> (\<forall>y\<in>set pre. \<not> p y) \<and> mutateFirst p f xs = pre @ f x # post"
proof (induction xs)
  case Nil
  then show ?case by simp
next
  case (Cons y ys)
  show ?case
  proof (cases "p y")
    case True
    with Cons.prems have "y = x" by simp
    with True have "y # ys = [] @ x # ys \<and> (\<forall>z\<in>set []. \<not> p z) \<and> mutateFirst p f (y # ys) = [] @ f x # ys"
      by simp
    then show ?thesis by blast
  next
    case False
    with Cons.prems have "List.find p ys = Some x" by simp
    with Cons.IH obtain pre post where
      "ys = pre @ x # post" "\<forall>z\<in>set pre. \<not> p z" "mutateFirst p f ys = pre @ f x # post"
      by blast
    with False have "y # ys = (y # pre) @ x # post \<and> (\<forall>z\<in>set (y # pre). \<not> p z)
        \<and> mutateFirst p f (y # ys) = (y # pre) @ f x # post"
      by simp
    then show ?thesis by blast
  qed
qed

lemma mutateFirst_idem:
  "(\<And>x. p (f x) = p x) \<Longrightarrow> (\<And>x. f (f x) = f x) \<Longrightarrow>
     mutateFirst p f (mutateFirst p f xs) = mutateFirst p f xs"
  by (induction xs) auto

lemma find_mutateFirst:
  "(\<And>x. p (f x) = p x) \<Longrightarrow> List.find p (mutateFirst p f xs) = map_option f (List.find p xs)"
  by (induction xs) auto

lemma classifyItem_id: "inbox_id (classifyItem item) = inbox_id item"
  by (simp add: classifyItem_eq)

lemma classifyItem_idem: "classifyItem (classifyItem item) = classifyItem item"
proof -
  have "classifyItem (classifyItem item) =
      (classifyItem item)\<lparr>inbox_type := classify_spec (inbox_text (classifyItem item)) (inbox_type (classifyItem item)),
          inbox_aiSummary :=
            (if length (inbox_text (classifyItem item)) > 50 then take 47 (inbox_text (classifyItem item)) @ ''...''
             else inbox_aiSummary (classifyItem item))\<rparr>"
    by (rule classifyItem_eq)
  moreover have "inbox_text (classifyItem item) = inbox_text item"
    and "inbox_type (classifyItem item) = classify_spec (inbox_text item) (inbox_type item)"
    and "inbox_aiSummary (classifyItem item) =
            (if length (inbox_text item) > 50 then take 47 (inbox_text item) @ ''...''
             else inbox_aiSummary item)"
    by (simp_all add: classifyItem_eq)
  ultimately have "classifyItem (classifyItem item) =
      (classifyItem item)\<lparr>inbox_type := classify_spec (inbox_text item) (inbox_type item),
          inbox_aiSummary :=
            (if length (inbox_text item) > 50 then take 47 (inbox_text item) @ ''...''
             else inbox_aiSummary item)\<rparr>"
    by (simp add: classify_spec_idem)
  also have "\<dots> = classifyItem item"
    by (simp add: classifyItem_eq)
  finally show ?thesis .
qed

lemma classifyItem_fields:
  "\<exists>ty sm. classifyItem item = item\<lparr>inbox_type := ty, inbox_aiSummary := sm\<rparr>"
  using classifyItem_eq by blast

lemma set_mutateFirst: "set (mutateFirst p f xs) \<subseteq> set xs \<union> f ` set xs"
  by (induction xs) auto

lemma all_true_replicate: "\<forall>x\<in>set xs. P x \<Longrightarrow> map P xs = replicate (length xs) True"
  by (induction xs) auto

lemma mutateFirst_pred:
  "(\<And>x. P x \<Longrightarrow> P (f x)) \<Longrightarrow> \<forall>x\<in>set xs. P x \<Longrightarrow> \<forall>x\<in>set (mutateFirst p f xs). P x"
  using set_mutateFirst [of p f xs] by auto

lemma classifyInboxItem_found:
  assumes "List.find (\<lambda>i. inbox_id i = iid) (inbox (state a)) = Some item"
  shows "List.find (\<lambda>i. inbox_id i = iid) (inbox (state (classifyInboxItem iid a))) = Some (classifyItem item)"
proof -
  have "List.find (\<lambda>i. inbox_id i = iid) (mutateFirst (\<lambda>i. inbox_id i = iid) classifyItem (inbox (state a)))
      = map_option classifyItem (List.find (\<lambda>i. inbox_id i = iid) (inbox (state a)))"
    by (rule find_mutateFirst) (simp add: classifyItem_id)
  with assms show ?thesis by (simp add: classifyInboxItem_def)
qed

lemma addToInbox_item:
  "addToInbox gid now (Some text) ty input a = a
   \<or> (\<exists>t. inbox (state (addToInbox gid now (Some text) ty input a)) =
          inbox (state a) @ [\<lparr>inbox_id = gid, inbox_text = t,
             inbox_type = (case ty of None \<Rightarrow> ''thought'' | Some x \<Rightarrow> x),
             inbox_status = ''new'', inbox_createdAt = now, inbox_aiSummary = []\<rparr>])"
  by (simp add: addToInbox_def showToast_def Let_def)

subsection \<open>The classifier\<close>

text \<open>
  Claim C1. For every input text, classification matches substrings of the lowercased
  text against three keyword groups in order, and the first group that matches wins:
  a task marker (\<^verbatim>\<open>task:\<close>, \<^verbatim>\<open>todo:\<close>, \<^verbatim>\<open>need to\<close>, \<^verbatim>\<open>must\<close>, \<^verbatim>\<open>should\<close>) makes the
  type \<^verbatim>\<open>task\<close>; otherwise an idea marker (\<^verbatim>\<open>idea:\<close>, \<^verbatim>\<open>what if\<close>, \<^verbatim>\<open>maybe\<close>, \<^verbatim>\<open>could\<close>)
  makes it \<^verbatim>\<open>idea\<close>; otherwise a link marker (\<^verbatim>\<open>http://\<close>, \<^verbatim>\<open>https://\<close>, \<^verbatim>\<open>.com\<close>,
  \<^verbatim>\<open>.org\<close>) makes it \<^verbatim>\<open>link\<close>; otherwise the type is left as it was. The text
  \<^verbatim>\<open>need to check http://x.com\<close>, which has a task marker and a link marker, becomes a
  task. (That the search in the lowercased text is a search for the marker in the text
  itself with the case ignored is \<open>sublist_toLowerCase\<close>.)
\<close>

theorem classify_first_match:
  "inbox_type (classifyItem item) = classify_spec (inbox_text item) (inbox_type item)
   \<and> (List.find (\<lambda>i. inbox_id i = iid) (inbox (state a)) = Some item \<longrightarrow>
        map_option inbox_type (List.find (\<lambda>i. inbox_id i = iid) (inbox (state (classifyInboxItem iid a))))
          = Some (classify_spec (inbox_text item) (inbox_type item)))
   \<and> inbox_type (classifyItem (item\<lparr>inbox_text := ''need to check http://x.com''\<rparr>)) = ''task''"
proof (intro conjI impI)
  show "inbox_type (classifyItem item) = classify_spec (inbox_text item) (inbox_type item)"
    by (simp add: classifyItem_eq)
  show "map_option inbox_type (List.find (\<lambda>i. inbox_id i = iid) (inbox (state (classifyInboxItem iid a))))
          = Some (classify_spec (inbox_text item) (inbox_type item))"
    if "List.find (\<lambda>i. inbox_id i = iid) (inbox (state a)) = Some item"
    using classifyInboxItem_found [OF that] by (simp add: classifyItem_eq)
  have "classify_spec ''need to check http://x.com'' (inbox_type item) = ''task''"
    by code_simp
  then show "inbox_type (classifyItem (item\<lparr>inbox_text := ''need to check http://x.com''\<rparr>)) = ''task''"
    by (simp add: classifyItem_eq)
qed

theorem classify_first_match_witness:
  "List.find (\<lambda>i. inbox_id i = ''lq1a0002k3'') (inbox (state exampleApp)) = Some longItem
   \<and> map_option inbox_type
        (List.find (\<lambda>i. inbox_id i = ''lq1a0002k3'') (inbox (state (classifyInboxItem ''lq1a0002k3'' exampleApp))))
       = Some ''idea''
   \<and> inbox_type (classifyItem exampleItem) = ''task''"
proof -
  have found: "List.find (\<lambda>i. inbox_id i = ''lq1a0002k3'') (inbox (state exampleApp)) = Some longItem"
    by (simp add: exampleApp_def exampleStore_def exampleItem_def longItem_def)
  have long: "classify_spec (inbox_text longItem) (inbox_type longItem) = ''idea''"
    by code_simp
  have short: "classify_spec (inbox_text exampleItem) (inbox_type exampleItem) = ''task''"
    by code_simp
  from classify_first_match [of longItem "''lq1a0002k3''" exampleApp] found long
  have "map_option inbox_type
        (List.find (\<lambda>i. inbox_id i = ''lq1a0002k3'') (inbox (state (classifyInboxItem ''lq1a0002k3'' exampleApp))))
       = Some ''idea''"
    by simp
  moreover from classify_first_match [of exampleItem "''lq1a0002k3''" exampleApp] short
  have "inbox_type (classifyItem exampleItem) = ''task''"
    by simp
  ultimately show ?thesis using found by blast
qed

text \<open>
  Claim C5. For every input text longer than 50 characters classification sets the
  summary to the first 47 characters of the text followed by three dots, 50 characters
  in all; for a text of 50 characters or less the summary is left as it was, so an empty
  summary stays empty.
\<close>

theorem classify_summary:
  "(length (inbox_text item) > 50 \<longrightarrow>
      inbox_aiSummary (classifyItem item) = take 47 (inbox_text item) @ ''...''
      \<and> length (inbox_aiSummary (classifyItem item)) = 50)
   \<and> (length (inbox_text item) \<le> 50 \<longrightarrow>
      inbox_aiSummary (classifyItem item) = inbox_aiSummary item
      \<and> (inbox_aiSummary item = [] \<longrightarrow> inbox_aiSummary (classifyItem item) = []))
   \<and> (List.find (\<lambda>i. inbox_id i = iid) (inbox (state a)) = Some item \<longrightarrow>
        map_option inbox_aiSummary (List.find (\<lambda>i. inbox_id i = iid) (inbox (state (classifyInboxItem iid a))))
          = Some (if length (inbox_text item) > 50 then take 47 (inbox_text item) @ ''...''
                  else inbox_aiSummary item))"
proof (intro conjI impI)
  show "map_option inbox_aiSummary (List.find (\<lambda>i. inbox_id i = iid) (inbox (state (classifyInboxItem iid a))))
          = Some (if length (inbox_text item) > 50 then take 47 (inbox_text item) @ ''...''
                  else inbox_aiSummary item)"
    if "List.find (\<lambda>i. inbox_id i = iid) (inbox (state a)) = Some item"
    using classifyInboxItem_found [OF that] by (simp add: classifyItem_eq)
qed (simp_all add: classifyItem_eq)

theorem classify_summary_witness:
  "length (inbox_text longItem) > 50
   \<and> inbox_aiSummary (classifyItem longItem) = ''Maybe we COULD write the whole report before th...''
   \<and> length (inbox_text exampleItem) \<le> 50
   \<and> inbox_aiSummary exampleItem = []
   \<and> inbox_aiSummary (classifyItem exampleItem) = []
   \<and> List.find (\<lambda>i. inbox_id i = ''lq1a0002k3'') (inbox (state exampleApp)) = Some longItem
   \<and> map_option inbox_aiSummary
        (List.find (\<lambda>i. inbox_id i = ''lq1a0002k3'') (inbox (state (classifyInboxItem ''lq1a0002k3'' exampleApp))))
       = Some ''Maybe we COULD write the whole report before th...''"
proof -
  have long: "length (inbox_text longItem) > 50" by (simp add: longItem_def)
  have short: "length (inbox_text exampleItem) \<le> 50" by (simp add: exampleItem_def)
  have empty: "inbox_aiSummary exampleItem = []" by (simp add: exampleItem_def)
  have found: "List.find (\<lambda>i. inbox_id i = ''lq1a0002k3'') (inbox (state exampleApp)) = Some longItem"
    by (simp add: exampleApp_def exampleStore_def exampleItem_def longItem_def)
  note l = classify_summary [of longItem "''lq1a0002k3''" exampleApp]
  from l long
  have "inbox_aiSummary (classifyItem longItem) = take 47 (inbox_text longItem) @ ''...''"
    by blast
  then have a: "inbox_aiSummary (classifyItem longItem) = ''Maybe we COULD write the whole report before th...''"
    by (simp add: longItem_def)
  from l found long
  have "map_option inbox_aiSummary
        (List.find (\<lambda>i. inbox_id i = ''lq1a0002k3'') (inbox (state (classifyInboxItem ''lq1a0002k3'' exampleApp))))
       = Some (take 47 (inbox_text longItem) @ ''...'')"
    by simp
  then have b: "map_option inbox_aiSummary
        (List.find (\<lambda>i. inbox_id i = ''lq1a0002k3'') (inbox (state (classifyInboxItem ''lq1a0002k3'' exampleApp))))
       = Some ''Maybe we COULD write the whole report before th...''"
    by (simp add: longItem_def)
  from classify_summary [of exampleItem "''lq1a0002k3''" exampleApp] short empty
  have c: "inbox_aiSummary (classifyItem exampleItem) = []"
    by simp
  from long short empty found a b c show ?thesis by blast
qed


text \<open>
  Claim C9. Classification is idempotent: classifying an item a second time, its text
  unchanged, gives the same type and the same summary as the first time, for the item
  and for the store that holds it.
\<close>

theorem classify_idempotent:
  "classifyItem (classifyItem item) = classifyItem item
   \<and> classifyInboxItem iid (classifyInboxItem iid a) = classifyInboxItem iid a"
proof
  show "classifyItem (classifyItem item) = classifyItem item"
    by (rule classifyItem_idem)
  let ?p = "\<lambda>i. inbox_id i = iid"
  show "classifyInboxItem iid (classifyInboxItem iid a) = classifyInboxItem iid a"
  proof (cases "List.find ?p (inbox (state a))")
    case None
    then show ?thesis by (simp add: classifyInboxItem_def)
  next
    case (Some item)
    have p: "\<And>x. ?p (classifyItem x) = ?p x" by (simp add: classifyItem_id)
    have "List.find ?p (mutateFirst ?p classifyItem (inbox (state a))) = Some (classifyItem item)"
      using find_mutateFirst [of ?p classifyItem "inbox (state a)"] Some p by simp
    moreover have "mutateFirst ?p classifyItem (mutateFirst ?p classifyItem (inbox (state a)))
        = mutateFirst ?p classifyItem (inbox (state a))"
      using p classifyItem_idem by (intro mutateFirst_idem) auto
    ultimately show ?thesis using Some by (simp add: classifyInboxItem_def)
  qed
qed


text \<open>
  Claim C10. \<^verbatim>\<open>classifyInboxItem\<close> changes at most the type and the summary of the inbox
  item it finds: that item keeps its id, text, creation time and status, every other
  inbox item is unchanged, and so are the tasks, projects, ideas, contacts and settings;
  when no inbox item has the id the whole store is unchanged.
\<close>

theorem classifyInboxItem_frame:
  "projects (state (classifyInboxItem iid a)) = projects (state a)
   \<and> tasks (state (classifyInboxItem iid a)) = tasks (state a)
   \<and> ideas (state (classifyInboxItem iid a)) = ideas (state a)
   \<and> contacts (state (classifyInboxItem iid a)) = contacts (state a)
   \<and> settings (state (classifyInboxItem iid a)) = settings (state a)
   \<and> toasts (classifyInboxItem iid a) = toasts a
   \<and> (case List.find (\<lambda>i. inbox_id i = iid) (inbox (state a)) of
        None \<Rightarrow> classifyInboxItem iid a = a
      | Some item \<Rightarrow>
          \<exists>pre post item'.
             inbox (state a) = pre @ item # post
           \<and> (\<forall>x\<in>set pre. inbox_id x \<noteq> iid)
           \<and> inbox (state (classifyInboxItem iid a)) = pre @ item' # post
           \<and> (\<exists>ty sm. item' = item\<lparr>inbox_type := ty, inbox_aiSummary := sm\<rparr>)
           \<and> inbox_id item' = inbox_id item \<and> inbox_text item' = inbox_text item
           \<and> inbox_createdAt item' = inbox_createdAt item
           \<and> inbox_status item' = inbox_status item)"
proof -
  let ?p = "\<lambda>i. inbox_id i = iid"
  have frame: "projects (state (classifyInboxItem iid a)) = projects (state a)
   \<and> tasks (state (classifyInboxItem iid a)) = tasks (state a)
   \<and> ideas (state (classifyInboxItem iid a)) = ideas (state a)
   \<and> contacts (state (classifyInboxItem iid a)) = contacts (state a)
   \<and> settings (state (classifyInboxItem iid a)) = settings (state a)
   \<and> toasts (classifyInboxItem iid a) = toasts a"
    by (simp add: classifyInboxItem_def split: option.splits)
  have "case List.find ?p (inbox (state a)) of
        None \<Rightarrow> classifyInboxItem iid a = a
      | Some item \<Rightarrow>
          \<exists>pre post item'.
             inbox (state a) = pre @ item # post
           \<and> (\<forall>x\<in>set pre. inbox_id x \<noteq> iid)
           \<and> inbox (state (classifyInboxItem iid a)) = pre @ item' # post
           \<and> (\<exists>ty sm. item' = item\<lparr>inbox_type := ty, inbox_aiSummary := sm\<rparr>)
           \<and> inbox_id item' = inbox_id item \<and> inbox_text item' = inbox_text item
           \<and> inbox_createdAt item' = inbox_createdAt item
           \<and> inbox_status item' = inbox_status item"
  proof (cases "List.find ?p (inbox (state a))")
    case None
    then show ?thesis by (simp add: classifyInboxItem_def)
  next
    case (Some item)
    from mutateFirst_some [OF Some, of classifyItem] obtain pre post where
      pp: "inbox (state a) = pre @ item # post" "\<forall>y\<in>set pre. inbox_id y \<noteq> iid"
          "mutateFirst ?p classifyItem (inbox (state a)) = pre @ classifyItem item # post"
      by blast
    obtain ty sm where ts: "classifyItem item = item\<lparr>inbox_type := ty, inbox_aiSummary := sm\<rparr>"
      using classifyItem_fields by blast
    have "inbox (state (classifyInboxItem iid a)) = pre @ classifyItem item # post"
      using Some pp(3) by (simp add: classifyInboxItem_def)
    moreover have "inbox_id (classifyItem item) = inbox_id item \<and> inbox_text (classifyItem item) = inbox_text item
           \<and> inbox_createdAt (classifyItem item) = inbox_createdAt item
           \<and> inbox_status (classifyItem item) = inbox_status item"
      by (simp add: ts)
    ultimately have "inbox (state a) = pre @ item # post
           \<and> (\<forall>x\<in>set pre. inbox_id x \<noteq> iid)
           \<and> inbox (state (classifyInboxItem iid a)) = pre @ classifyItem item # post
           \<and> (\<exists>ty sm. classifyItem item = item\<lparr>inbox_type := ty, inbox_aiSummary := sm\<rparr>)
           \<and> inbox_id (classifyItem item) = inbox_id item \<and> inbox_text (classifyItem item) = inbox_text item
           \<and> inbox_createdAt (classifyItem item) = inbox_createdAt item
           \<and> inbox_status (classifyItem item) = inbox_status item"
      using pp ts by blast
    then show ?thesis using Some by (simp only: option.case) blast
  qed
  with frame show ?thesis by simp
qed

theorem classifyInboxItem_frame_witness:
  "inbox (state (classifyInboxItem ''lq1a0002k3'' exampleApp)) =
     [exampleItem,
      longItem\<lparr>inbox_type := ''idea'',
               inbox_aiSummary := ''Maybe we COULD write the whole report before th...''\<rparr>]
   \<and> tasks (state (classifyInboxItem ''lq1a0002k3'' exampleApp)) = []
   \<and> classifyInboxItem ''nobody'' exampleApp = exampleApp"
proof -
  have found: "List.find (\<lambda>i. inbox_id i = ''lq1a0002k3'') (inbox (state exampleApp)) = Some longItem"
    by (simp add: exampleApp_def exampleStore_def exampleItem_def longItem_def)
  have absent: "List.find (\<lambda>i. inbox_id i = ''nobody'') (inbox (state exampleApp)) = None"
    by (simp add: exampleApp_def exampleStore_def exampleItem_def longItem_def)
  have cl: "classifyItem longItem = longItem\<lparr>inbox_type := ''idea'',
               inbox_aiSummary := ''Maybe we COULD write the whole report before th...''\<rparr>"
    by code_simp
  have "inbox (state (classifyInboxItem ''lq1a0002k3'' exampleApp)) = [exampleItem, classifyItem longItem]"
    using found by (simp add: classifyInboxItem_def exampleApp_def exampleStore_def exampleItem_def longItem_def)
  moreover have "tasks (state (classifyInboxItem ''lq1a0002k3'' exampleApp)) = []"
    using classifyInboxItem_frame [of "''lq1a0002k3''" exampleApp]
    by (simp add: exampleApp_def exampleStore_def)
  moreover have "classifyInboxItem ''nobody'' exampleApp = exampleApp"
    using classifyInboxItem_frame [of "''nobody''" exampleApp] absent by simp
  ultimately show ?thesis using cl by simp
qed

subsection \<open>Conversion\<close>

text \<open>
  Claim C6. When no inbox item has the id, \<^verbatim>\<open>convertInboxToTask\<close> and
  \<^verbatim>\<open>convertInboxToIdea\<close> do nothing: they return without an error or a toast and leave
  the inbox, the tasks, the ideas and every other part of the store as they were.
\<close>

theorem convert_absent_noop:
  "(\<forall>i\<in>set (inbox (state a)). inbox_id i \<noteq> iid) \<Longrightarrow>
     convertInboxToTask gid now iid a = a \<and> convertInboxToIdea gid now iid a = a"
proof -
  assume "\<forall>i\<in>set (inbox (state a)). inbox_id i \<noteq> iid"
  then have "List.find (\<lambda>i. inbox_id i = iid) (inbox (state a)) = None"
    by (simp add: find_None_iff)
  then show ?thesis by (simp add: convertInboxToTask_def convertInboxToIdea_def)
qed

theorem convert_absent_noop_witness:
  "convertInboxToTask ''lq1a0009zz'' ''2024-01-17T09:00:00.000Z'' ''nobody'' exampleApp = exampleApp
   \<and> convertInboxToIdea ''lq1a0009zz'' ''2024-01-17T09:00:00.000Z'' ''nobody'' exampleApp = exampleApp"
proof -
  have "\<forall>i\<in>set (inbox (state exampleApp)). inbox_id i \<noteq> ''nobody''"
    by (simp add: exampleApp_def exampleStore_def exampleItem_def longItem_def)
  then show ?thesis by (rule convert_absent_noop)
qed


lemma filter_unique_find:
  "filter p xs = [x] \<Longrightarrow> List.find p xs = Some x"
proof (induction xs)
  case Nil
  then show ?case by simp
next
  case (Cons y ys)
  then show ?case by (auto split: if_splits)
qed

lemma filter_unique_remove1:
  "filter p xs = [x] \<Longrightarrow> filter (\<lambda>y. \<not> p y) xs = remove1 x xs"
proof (induction xs)
  case Nil
  then show ?case by simp
next
  case (Cons y ys)
  show ?case
  proof (cases "p y")
    case True
    with Cons.prems have yx: "y = x" and "filter p ys = []" by auto
    then have "\<forall>z\<in>set ys. \<not> p z" by (simp add: filter_empty_conv)
    then have "filter (\<lambda>y. \<not> p y) ys = ys" by simp
    with True yx show ?thesis by simp
  next
    case False
    with Cons.prems have "filter p ys = [x]" by simp
    with Cons.IH have "filter (\<lambda>y. \<not> p y) ys = remove1 x ys" by blast
    moreover from False Cons.prems have "y \<noteq> x"
      by (metis filter_eq_ConsD)
    ultimately show ?thesis using False by simp
  qed
qed

lemma filter_unique_length:
  "filter p xs = [x] \<Longrightarrow> length (filter (\<lambda>y. \<not> p y) xs) + 1 = length xs"
  using sum_length_filter_compl [of p xs] by simp

lemma convertTask_found:
  "List.find (\<lambda>i. inbox_id i = iid) (inbox (state a)) = Some item \<Longrightarrow>
     convertInboxToTask gid now iid a =
       \<lparr>state = (state a)\<lparr>tasks := tasks (state a) @
                   [\<lparr>task_id = gid, task_text = inbox_text item, task_completed = False,
                     task_priority = ''medium'', task_dueDate = Null, task_project = Null,
                     task_context = [], task_createdAt = now, task_completedAt = Undefined\<rparr>],
                 inbox := filter (\<lambda>i. inbox_id i \<noteq> iid) (inbox (state a))\<rparr>,
        toasts = toasts a @ [(''Converted to task!'', ''success'')]\<rparr>"
  by (simp add: convertInboxToTask_def showToast_def Let_def)

lemma convertIdea_found:
  "List.find (\<lambda>i. inbox_id i = iid) (inbox (state a)) = Some item \<Longrightarrow>
     convertInboxToIdea gid now iid a =
       \<lparr>state = (state a)\<lparr>ideas := ideas (state a) @
                   [\<lparr>idea_id = gid, idea_text = inbox_text item, idea_category = ''general'',
                     idea_potential = 2, idea_status = ''new'', idea_createdAt = now\<rparr>],
                 inbox := filter (\<lambda>i. inbox_id i \<noteq> iid) (inbox (state a))\<rparr>,
        toasts = toasts a @ [(''Converted to idea!'', ''success'')]\<rparr>"
  by (simp add: convertInboxToIdea_def showToast_def Let_def)

lemma digits36_inj: "i < 36 \<Longrightarrow> j < 36 \<Longrightarrow> digits36 ! i = digits36 ! j \<Longrightarrow> i = j"
proof -
  have "distinct digits36" by (simp add: digits36_def)
  moreover have "length digits36 = 36" by (simp add: digits36_def)
  ultimately show "i < 36 \<Longrightarrow> j < 36 \<Longrightarrow> digits36 ! i = digits36 ! j \<Longrightarrow> i = j"
    by (simp add: nth_eq_iff_index_eq)
qed

lemma toString36_not_empty: "toString36 n \<noteq> []"
  by (simp add: toString36.simps [of n])

lemma toString36_inj: "toString36 m = toString36 n \<Longrightarrow> m = n"
proof (induction m arbitrary: n rule: toString36.induct)
  case (1 m)
  show ?case
  proof (cases "m < 36")
    case True
    show ?thesis
    proof (cases "n < 36")
      case n: True
      from "1.prems" True n have "digits36 ! m = digits36 ! n"
        by (simp add: toString36.simps [of m] toString36.simps [of n])
      with True n show ?thesis by (rule digits36_inj)
    next
      case n: False
      from "1.prems" True n have "toString36 (n div 36) = []"
        by (simp add: toString36.simps [of m] toString36.simps [of n])
      then show ?thesis by (simp add: toString36_not_empty)
    qed
  next
    case False
    show ?thesis
    proof (cases "n < 36")
      case n: True
      from "1.prems" False n have "toString36 (m div 36) = []"
        by (simp add: toString36.simps [of m] toString36.simps [of n])
      then show ?thesis by (simp add: toString36_not_empty)
    next
      case n: False
      from "1.prems" False n
      have eq: "toString36 (m div 36) = toString36 (n div 36)"
        and d: "digits36 ! (m mod 36) = digits36 ! (n mod 36)"
        by (simp_all add: toString36.simps [of m] toString36.simps [of n])
      from "1.IH" [OF False eq] have "m div 36 = n div 36" .
      moreover have "m mod 36 = n mod 36"
        using d by (intro digits36_inj) simp_all
      ultimately show ?thesis
        by (metis div_mult_mod_eq)
    qed
  qed
qed

lemma generateId_prefix: "prefix (toString36 ms) (generateId ms fraction)"
  by (simp add: generateId_def)

lemma generateId_other_millisecond:
  assumes "ms0 \<noteq> ms" and "length (toString36 ms0) = length (toString36 ms)"
  shows "generateId ms fraction \<noteq> generateId ms0 fraction0"
proof
  assume "generateId ms fraction = generateId ms0 fraction0"
  then have "toString36 ms @ fraction = toString36 ms0 @ fraction0"
    by (simp add: generateId_def)
  with assms(2) have "toString36 ms = toString36 ms0" by simp
  then have "ms = ms0" by (rule toString36_inj)
  with assms(1) show False by simp
qed

text \<open>
  Claim C2 says that whenever an inbox item has the id, conversion removes exactly that
  item, so that the inbox gets shorter by one, and that the id of the new task differs from
  the item's. With two inbox items of one id, the conversion of that id removes both. And
  the id of the new task is whatever \<^verbatim>\<open>generateId()\<close> returns, which is not compared with
  any id in the store: when it returns the id of the item, the task has the item's id.
\<close>

theorem convert_duplicate_ids_counterexample:
  "dupItemA \<in> set (inbox (state dupApp)) \<and> inbox_id dupItemA = ''dup''
   \<and> length (inbox (state dupApp)) = 2
   \<and> length (inbox (state (convertInboxToTask (generateId 1705482000000 ''i'')
        ''2024-01-17T09:00:00.000Z'' ''dup'' dupApp))) = 0
   \<and> inbox (state clashApp) = [clashItem]
   \<and> map task_id (tasks (state (convertInboxToTask (generateId 1705482000000 ''i'')
        ''2024-01-17T09:00:00.000Z'' (inbox_id clashItem) clashApp))) = [inbox_id clashItem]"
proof -
  have g: "generateId 1705482000000 ''i'' = ''lrhjy5c0i''"
    by (simp add: generateId_def toString36.simps digits36_def)
  show ?thesis
    unfolding g
    by (simp add: dupApp_def dupItemA_def dupItemB_def clashApp_def clashItem_def
        convertInboxToTask_def showToast_def)
qed

text \<open>
  Claim C2, amended. When exactly one inbox item has the id, \<^verbatim>\<open>convertInboxToTask\<close>
  removes exactly that item, the inbox gets shorter by one, and one task is appended:
  its text is the item's text, it is not completed, its priority is \<^verbatim>\<open>medium\<close>, due date
  and project are \<^verbatim>\<open>null\<close>, the context is empty, the creation time is the current time
  and the id is a newly generated one, the base-36 numeral of the clock's milliseconds
  followed by random digits. That id differs from the item's id unless the item's id
  begins with the same numeral; so it differs from every id that was generated at another
  millisecond with a numeral of the same length. \<^verbatim>\<open>convertInboxToIdea\<close> does the same with
  an idea of category \<^verbatim>\<open>general\<close>, potential 2 and status \<^verbatim>\<open>new\<close>.
\<close>

theorem convert_unique_item:
  assumes "filter (\<lambda>i. inbox_id i = iid) (inbox (state a)) = [item]"
  shows "inbox (state (convertInboxToTask (generateId ms fraction) now iid a)) = remove1 item (inbox (state a))
       \<and> length (inbox (state (convertInboxToTask (generateId ms fraction) now iid a))) + 1
            = length (inbox (state a))
       \<and> tasks (state (convertInboxToTask (generateId ms fraction) now iid a)) = tasks (state a) @
            [\<lparr>task_id = generateId ms fraction, task_text = inbox_text item, task_completed = False,
              task_priority = ''medium'', task_dueDate = Null, task_project = Null,
              task_context = [], task_createdAt = now, task_completedAt = Undefined\<rparr>]
       \<and> (\<not> prefix (toString36 ms) (inbox_id item) \<longrightarrow>
            task_id (last (tasks (state (convertInboxToTask (generateId ms fraction) now iid a))))
              \<noteq> inbox_id item)
       \<and> (inbox_id item = generateId ms0 fraction0 \<and> ms0 \<noteq> ms
            \<and> length (toString36 ms0) = length (toString36 ms) \<longrightarrow>
            task_id (last (tasks (state (convertInboxToTask (generateId ms fraction) now iid a))))
              \<noteq> inbox_id item)
       \<and> inbox (state (convertInboxToIdea (generateId ms fraction) now iid a)) = remove1 item (inbox (state a))
       \<and> length (inbox (state (convertInboxToIdea (generateId ms fraction) now iid a))) + 1
            = length (inbox (state a))
       \<and> ideas (state (convertInboxToIdea (generateId ms fraction) now iid a)) = ideas (state a) @
            [\<lparr>idea_id = generateId ms fraction, idea_text = inbox_text item, idea_category = ''general'',
              idea_potential = 2, idea_status = ''new'', idea_createdAt = now\<rparr>]
       \<and> (\<not> prefix (toString36 ms) (inbox_id item) \<longrightarrow>
            idea_id (last (ideas (state (convertInboxToIdea (generateId ms fraction) now iid a))))
              \<noteq> inbox_id item)
       \<and> (inbox_id item = generateId ms0 fraction0 \<and> ms0 \<noteq> ms
            \<and> length (toString36 ms0) = length (toString36 ms) \<longrightarrow>
            idea_id (last (ideas (state (convertInboxToIdea (generateId ms fraction) now iid a))))
              \<noteq> inbox_id item)"
proof -
  let ?p = "\<lambda>i. inbox_id i = iid"
  let ?gid = "generateId ms fraction"
  from assms have found: "List.find ?p (inbox (state a)) = Some item"
    by (rule filter_unique_find)
  have rem: "filter (\<lambda>i. inbox_id i \<noteq> iid) (inbox (state a)) = remove1 item (inbox (state a))"
    using filter_unique_remove1 [OF assms] by simp
  have len: "length (filter (\<lambda>i. inbox_id i \<noteq> iid) (inbox (state a))) + 1 = length (inbox (state a))"
    using filter_unique_length [OF assms] by simp
  have t1: "inbox (state (convertInboxToTask ?gid now iid a)) = filter (\<lambda>i. inbox_id i \<noteq> iid) (inbox (state a))"
    by (simp add: convertTask_found [OF found])
  have t2: "tasks (state (convertInboxToTask ?gid now iid a)) = tasks (state a) @
            [\<lparr>task_id = ?gid, task_text = inbox_text item, task_completed = False,
              task_priority = ''medium'', task_dueDate = Null, task_project = Null,
              task_context = [], task_createdAt = now, task_completedAt = Undefined\<rparr>]"
    by (simp add: convertTask_found [OF found])
  have i1: "inbox (state (convertInboxToIdea ?gid now iid a)) = filter (\<lambda>i. inbox_id i \<noteq> iid) (inbox (state a))"
    by (simp add: convertIdea_found [OF found])
  have i2: "ideas (state (convertInboxToIdea ?gid now iid a)) = ideas (state a) @
            [\<lparr>idea_id = ?gid, idea_text = inbox_text item, idea_category = ''general'',
              idea_potential = 2, idea_status = ''new'', idea_createdAt = now\<rparr>]"
    by (simp add: convertIdea_found [OF found])
  have t3: "task_id (last (tasks (state (convertInboxToTask ?gid now iid a)))) = ?gid"
    by (simp add: t2)
  have i3: "idea_id (last (ideas (state (convertInboxToIdea ?gid now iid a)))) = ?gid"
    by (simp add: i2)
  have pre: "\<not> prefix (toString36 ms) (inbox_id item) \<longrightarrow> ?gid \<noteq> inbox_id item"
    using generateId_prefix [of ms fraction] by auto
  have other: "inbox_id item = generateId ms0 fraction0 \<and> ms0 \<noteq> ms
            \<and> length (toString36 ms0) = length (toString36 ms) \<longrightarrow> ?gid \<noteq> inbox_id item"
    using generateId_other_millisecond [of ms0 ms fraction fraction0] by auto
  show ?thesis
    unfolding t3 i3 using rem len pre other by (simp add: t1 t2 i1 i2)
qed

theorem convert_unique_item_witness:
  "inbox (state (convertInboxToTask (generateId 1705482000000 ''i'') ''2024-01-17T09:00:00.000Z''
      ''lq1a0001x7'' exampleApp)) = [longItem]
   \<and> map task_text (tasks (state (convertInboxToTask (generateId 1705482000000 ''i'')
      ''2024-01-17T09:00:00.000Z'' ''lq1a0001x7'' exampleApp))) = [''need to check http://x.com'']
   \<and> map task_id (tasks (state (convertInboxToTask (generateId 1705482000000 ''i'')
      ''2024-01-17T09:00:00.000Z'' ''lq1a0001x7'' exampleApp))) = [''lrhjy5c0i'']
   \<and> map idea_text (ideas (state (convertInboxToIdea (generateId 1705482000000 ''i'')
      ''2024-01-17T09:00:00.000Z'' ''lq1a0001x7'' exampleApp))) = [''need to check http://x.com'']"
proof -
  have u: "filter (\<lambda>i. inbox_id i = ''lq1a0001x7'') (inbox (state exampleApp)) = [exampleItem]"
    by (simp add: exampleApp_def exampleStore_def exampleItem_def longItem_def)
  have ne: "exampleItem \<noteq> longItem" by (simp add: exampleItem_def longItem_def)
  have g: "generateId 1705482000000 ''i'' = ''lrhjy5c0i''"
    by (simp add: generateId_def toString36.simps digits36_def)
  from convert_unique_item [OF u, of 1705482000000 "''i''" "''2024-01-17T09:00:00.000Z''"] ne g
  show ?thesis
    by (simp add: exampleApp_def exampleStore_def) (simp add: exampleItem_def)
qed

subsection \<open>Tasks\<close>

lemma toggle_ok: "completedAt_ok (toggle now t)"
  by (simp add: completedAt_ok_def toggle_def isSet_def Let_def)

lemma toggle_fields:
  "task_completed (toggle now t) = (\<not> task_completed t)
   \<and> task_completedAt (toggle now t) = (if task_completed t then Null else Defined now)"
  by (simp add: toggle_def Let_def)

lemma addQuickTask_tasks:
  "tasks (state (addQuickTask gid now input a)) = tasks (state a)
   \<or> (\<exists>t. tasks (state (addQuickTask gid now input a)) = tasks (state a) @ [t]
          \<and> \<not> task_completed t \<and> task_completedAt t = Undefined)"
  by (simp add: addQuickTask_def showToast_def Let_def)

lemma showAddTaskModal_tasks:
  "tasks (state (showAddTaskModal gid now answer a)) = tasks (state a)
   \<or> (\<exists>t. tasks (state (showAddTaskModal gid now answer a)) = tasks (state a) @ [t]
          \<and> \<not> task_completed t \<and> task_completedAt t = Undefined)"
  by (simp add: showAddTaskModal_def showToast_def Let_def split: option.splits)

lemma convertInboxToTask_tasks:
  "tasks (state (convertInboxToTask gid now iid a)) = tasks (state a)
   \<or> (\<exists>t. tasks (state (convertInboxToTask gid now iid a)) = tasks (state a) @ [t]
          \<and> \<not> task_completed t \<and> task_completedAt t = Undefined)"
  by (simp add: convertInboxToTask_def showToast_def Let_def split: option.splits)

lemma appended_ok:
  assumes "ts' = ts \<or> (\<exists>t. ts' = ts @ [t] \<and> \<not> task_completed t \<and> task_completedAt t = Undefined)"
    and "\<forall>t\<in>set ts. completedAt_ok t"
  shows "\<forall>t\<in>set ts'. completedAt_ok t"
  using assms by (auto simp: completedAt_ok_def isSet_def)

lemma toggleTask_tasks:
  "tasks (state (toggleTask now tid a)) = mutateFirst (\<lambda>t. task_id t = tid) (toggle now) (tasks (state a))"
  by (simp add: toggleTask_def showToast_def Let_def mutateFirst_none split: option.splits)

lemma toggleTask_effect:
  "case List.find (\<lambda>t. task_id t = tid) (tasks (state a)) of
     None \<Rightarrow> toggleTask now tid a = a
   | Some t \<Rightarrow>
       \<exists>pre post t'.
          tasks (state a) = pre @ t # post
        \<and> (\<forall>x\<in>set pre. task_id x \<noteq> tid)
        \<and> tasks (state (toggleTask now tid a)) = pre @ t' # post
        \<and> task_completed t' = (\<not> task_completed t)
        \<and> task_completedAt t' = (if task_completed t' then Defined now else Null)"
proof (cases "List.find (\<lambda>t. task_id t = tid) (tasks (state a))")
  case None
  then show ?thesis by (simp add: toggleTask_def)
next
  case (Some t)
  from mutateFirst_some [OF Some, of "toggle now"] obtain pre post where
    pp: "tasks (state a) = pre @ t # post" "\<forall>y\<in>set pre. task_id y \<noteq> tid"
        "mutateFirst (\<lambda>t. task_id t = tid) (toggle now) (tasks (state a)) = pre @ toggle now t # post"
    by blast
  have "tasks (state a) = pre @ t # post
        \<and> (\<forall>x\<in>set pre. task_id x \<noteq> tid)
        \<and> tasks (state (toggleTask now tid a)) = pre @ toggle now t # post
        \<and> task_completed (toggle now t) = (\<not> task_completed t)
        \<and> task_completedAt (toggle now t) = (if task_completed (toggle now t) then Defined now else Null)"
    using pp by (simp add: toggleTask_tasks toggle_fields)
  then show ?thesis using Some by (simp only: option.case) blast
qed

lemma toggleTask_ok:
  "\<forall>t\<in>set (tasks (state a)). completedAt_ok t \<Longrightarrow>
     \<forall>t\<in>set (tasks (state (toggleTask now tid a))). completedAt_ok t"
  unfolding toggleTask_tasks by (rule mutateFirst_pred) (simp_all add: toggle_ok)

lemma deleteTask_ok:
  "\<forall>t\<in>set (tasks (state a)). completedAt_ok t \<Longrightarrow>
     \<forall>t\<in>set (tasks (state (deleteTask tid a))). completedAt_ok t"
  by (simp add: deleteTask_def showToast_def)

lemma editTask_tasks:
  "tasks (state (editTask answer tid a)) = tasks (state a)
   \<or> (\<exists>txt. tasks (state (editTask answer tid a)) =
          mutateFirst (\<lambda>t. task_id t = tid) (\<lambda>t. t\<lparr>task_text := txt\<rparr>) (tasks (state a)))"
  by (auto simp add: editTask_def showToast_def Let_def split: option.splits)

lemma editTask_ok:
  assumes "\<forall>t\<in>set (tasks (state a)). completedAt_ok t"
  shows "\<forall>t\<in>set (tasks (state (editTask answer tid a))). completedAt_ok t"
proof -
  have "\<And>txt. \<forall>t\<in>set (mutateFirst (\<lambda>t. task_id t = tid) (\<lambda>t. t\<lparr>task_text := txt\<rparr>) (tasks (state a))). completedAt_ok t"
    using assms by (intro mutateFirst_pred) (simp_all add: completedAt_ok_def)
  with assms editTask_tasks [of answer tid a] show ?thesis by auto
qed

text \<open>
  Claim C8. \<^verbatim>\<open>completedAt\<close> is set exactly when the task is completed, after every task
  operation: a task created by the quick-add field, by the modal or by conversion from
  the inbox is not completed and has no \<^verbatim>\<open>completedAt\<close>; \<^verbatim>\<open>toggleTask\<close> flips
  \<^verbatim>\<open>completed\<close> of the task it finds and sets \<^verbatim>\<open>completedAt\<close> to the current time when the
  task is now completed and to \<^verbatim>\<open>null\<close> when it is not; and if every task of the store
  satisfies the invariant before one of the task operations (these three, toggling,
  editing, deleting), every task satisfies it afterwards.
\<close>

theorem completedAt_invariant:
  "(tasks (state (addQuickTask gid now input a)) = tasks (state a)
     \<or> (\<exists>t. tasks (state (addQuickTask gid now input a)) = tasks (state a) @ [t]
            \<and> \<not> task_completed t \<and> task_completedAt t = Undefined))
   \<and> (tasks (state (showAddTaskModal gid now answer a)) = tasks (state a)
     \<or> (\<exists>t. tasks (state (showAddTaskModal gid now answer a)) = tasks (state a) @ [t]
            \<and> \<not> task_completed t \<and> task_completedAt t = Undefined))
   \<and> (tasks (state (convertInboxToTask gid now iid a)) = tasks (state a)
     \<or> (\<exists>t. tasks (state (convertInboxToTask gid now iid a)) = tasks (state a) @ [t]
            \<and> \<not> task_completed t \<and> task_completedAt t = Undefined))
   \<and> (case List.find (\<lambda>t. task_id t = tid) (tasks (state a)) of
         None \<Rightarrow> toggleTask now tid a = a
       | Some t \<Rightarrow>
           \<exists>pre post t'.
              tasks (state a) = pre @ t # post
            \<and> (\<forall>x\<in>set pre. task_id x \<noteq> tid)
            \<and> tasks (state (toggleTask now tid a)) = pre @ t' # post
            \<and> task_completed t' = (\<not> task_completed t)
            \<and> task_completedAt t' = (if task_completed t' then Defined now else Null))
   \<and> ((\<forall>t\<in>set (tasks (state a)). completedAt_ok t) \<longrightarrow>
         (\<forall>t\<in>set (tasks (state (addQuickTask gid now input a))). completedAt_ok t)
       \<and> (\<forall>t\<in>set (tasks (state (showAddTaskModal gid now answer a))). completedAt_ok t)
       \<and> (\<forall>t\<in>set (tasks (state (convertInboxToTask gid now iid a))). completedAt_ok t)
       \<and> (\<forall>t\<in>set (tasks (state (toggleTask now tid a))). completedAt_ok t)
       \<and> (\<forall>t\<in>set (tasks (state (editTask answer tid a))). completedAt_ok t)
       \<and> (\<forall>t\<in>set (tasks (state (deleteTask tid a))). completedAt_ok t))"
proof -
  have pres: "(\<forall>t\<in>set (tasks (state a)). completedAt_ok t) \<longrightarrow>
         (\<forall>t\<in>set (tasks (state (addQuickTask gid now input a))). completedAt_ok t)
       \<and> (\<forall>t\<in>set (tasks (state (showAddTaskModal gid now answer a))). completedAt_ok t)
       \<and> (\<forall>t\<in>set (tasks (state (convertInboxToTask gid now iid a))). completedAt_ok t)
       \<and> (\<forall>t\<in>set (tasks (state (toggleTask now tid a))). completedAt_ok t)
       \<and> (\<forall>t\<in>set (tasks (state (editTask answer tid a))). completedAt_ok t)
       \<and> (\<forall>t\<in>set (tasks (state (deleteTask tid a))). completedAt_ok t)"
  proof
    assume inv: "\<forall>t\<in>set (tasks (state a)). completedAt_ok t"
    have 1: "\<forall>t\<in>set (tasks (state (addQuickTask gid now input a))). completedAt_ok t"
      using addQuickTask_tasks inv by (rule appended_ok)
    have 2: "\<forall>t\<in>set (tasks (state (showAddTaskModal gid now answer a))). completedAt_ok t"
      using showAddTaskModal_tasks inv by (rule appended_ok)
    have 3: "\<forall>t\<in>set (tasks (state (convertInboxToTask gid now iid a))). completedAt_ok t"
      using convertInboxToTask_tasks inv by (rule appended_ok)
    from 1 2 3 toggleTask_ok [OF inv] editTask_ok [OF inv] deleteTask_ok [OF inv]
    show "(\<forall>t\<in>set (tasks (state (addQuickTask gid now input a))). completedAt_ok t)
       \<and> (\<forall>t\<in>set (tasks (state (showAddTaskModal gid now answer a))). completedAt_ok t)
       \<and> (\<forall>t\<in>set (tasks (state (convertInboxToTask gid now iid a))). completedAt_ok t)
       \<and> (\<forall>t\<in>set (tasks (state (toggleTask now tid a))). completedAt_ok t)
       \<and> (\<forall>t\<in>set (tasks (state (editTask answer tid a))). completedAt_ok t)
       \<and> (\<forall>t\<in>set (tasks (state (deleteTask tid a))). completedAt_ok t)"
      by blast
  qed
  from addQuickTask_tasks showAddTaskModal_tasks convertInboxToTask_tasks toggleTask_effect pres
  show ?thesis by (intro conjI)
qed

theorem completedAt_invariant_witness:
  "map completedAt_ok (tasks (state taskApp)) = [True, True]
   \<and> map task_completedAt (tasks (state (toggleTask ''2024-01-18T07:00:00.000Z'' ''lq1b0002bb'' taskApp)))
       = [Defined ''2024-01-12T18:00:00.000Z'', Defined ''2024-01-18T07:00:00.000Z'']
   \<and> map task_completedAt (tasks (state (toggleTask ''2024-01-18T07:00:00.000Z'' ''lq1b0001aa'' taskApp)))
       = [Null, Undefined]
   \<and> map completedAt_ok (tasks (state (toggleTask ''2024-01-18T07:00:00.000Z'' ''lq1b0002bb'' taskApp)))
       = [True, True]"
proof -
  let ?ts = "tasks (state (toggleTask ''2024-01-18T07:00:00.000Z'' ''lq1b0002bb'' taskApp))"
  have before: "map completedAt_ok (tasks (state taskApp)) = [True, True]"
    by (simp add: taskApp_def doneTask_def openTask_def completedAt_ok_def isSet_def)
  then have inv: "\<forall>t\<in>set (tasks (state taskApp)). completedAt_ok t"
    by (simp add: taskApp_def)
  have a: "map task_completedAt ?ts
       = [Defined ''2024-01-12T18:00:00.000Z'', Defined ''2024-01-18T07:00:00.000Z'']"
    by (simp add: toggleTask_def toggle_def showToast_def taskApp_def doneTask_def openTask_def Let_def)
  have b: "map task_completedAt (tasks (state (toggleTask ''2024-01-18T07:00:00.000Z'' ''lq1b0001aa'' taskApp)))
       = [Null, Undefined]"
    by (simp add: toggleTask_def toggle_def showToast_def taskApp_def doneTask_def openTask_def Let_def)
  from completedAt_invariant [of "''g''" "''2024-01-18T07:00:00.000Z''" "[]" taskApp None "[]" "''lq1b0002bb''"] inv
  have "\<forall>t\<in>set ?ts. completedAt_ok t"
    by blast
  then have "map completedAt_ok ?ts = replicate (length ?ts) True"
    by (rule all_true_replicate)
  moreover have "length ?ts = 2"
    using arg_cong [OF a, of length] by simp
  ultimately have "map completedAt_ok ?ts = [True, True]"
    by (simp add: numeral_2_eq_2)
  with before a b show ?thesis by blast
qed


subsection \<open>Due status\<close>







subsection \<open>Load and import\<close>

lemma foldl_update:
  "foldl (\<lambda>m (k, x). m(k \<mapsto> x)) d es = d ++ map_of (rev es)"
proof (induction es arbitrary: d)
  case Nil
  then show ?case by simp
next
  case (Cons e es)
  obtain k x where e: "e = (k, x)" by (cases e)
  have "foldl (\<lambda>m (k, x). m(k \<mapsto> x)) d (e # es) = foldl (\<lambda>m (k, x). m(k \<mapsto> x)) (d(k \<mapsto> x)) es"
    by (simp add: e)
  also have "\<dots> = d(k \<mapsto> x) ++ map_of (rev es)"
    by (rule Cons.IH)
  also have "\<dots> = d ++ map_of (rev (e # es))"
    by (simp add: e map_of_append map_add_def fun_eq_iff split: option.splits)
  finally show ?case .
qed

lemma spread_lookup:
  "spread d v k = (case map_of (rev (ownEntries v)) k of Some x \<Rightarrow> Some x | None \<Rightarrow> d k)"
  by (simp add: spread_def foldl_update map_add_def)

lemma spread_missing:
  "k \<notin> fst ` set (ownEntries v) \<Longrightarrow> spread d v k = d k"
proof -
  assume "k \<notin> fst ` set (ownEntries v)"
  then have "k \<notin> fst ` set (rev (ownEntries v))" by simp
  then have "map_of (rev (ownEntries v)) k = None" by (simp add: map_of_eq_None_iff)
  then show ?thesis by (simp add: spread_lookup)
qed

lemma spread_present:
  "distinct (map fst (ownEntries v)) \<Longrightarrow> (k, x) \<in> set (ownEntries v) \<Longrightarrow> spread d v k = Some x"
proof -
  assume "distinct (map fst (ownEntries v))" and "(k, x) \<in> set (ownEntries v)"
  then have "distinct (map fst (rev (ownEntries v)))" and "(k, x) \<in> set (rev (ownEntries v))"
    by (simp_all add: rev_map [symmetric])
  then have "map_of (rev (ownEntries v)) k = Some x" by (rule map_of_is_SomeI)
  then show ?thesis by (simp add: spread_lookup)
qed

lemma spread_last_wins:
  "k \<in> fst ` set (ownEntries v) \<Longrightarrow> spread d v k = map_of (rev (ownEntries v)) k"
proof -
  assume "k \<in> fst ` set (ownEntries v)"
  then have "k \<in> fst ` set (rev (ownEntries v))" by simp
  then have "map_of (rev (ownEntries v)) k \<noteq> None" by (simp add: map_of_eq_None_iff)
  then show ?thesis by (auto simp add: spread_lookup)
qed

text \<open>
  Claim C3. \<^verbatim>\<open>loadData\<close> never throws. With nothing stored, with a stored text that does
  not parse, or when reading the storage fails, it returns the defaults: the five
  collections, each present and empty, and the settings with \<^verbatim>\<open>darkMode\<close> and \<^verbatim>\<open>apiKey\<close>.
  When the stored text parses, every top-level key that the stored value lacks has its
  default, and every key of the stored value, known or not, has the stored value's entry
  (the last one, were a key listed twice).
\<close>

theorem load_defaults_merge:
  "loadData defaultData JSON_parse Throws = defaultData
   \<and> loadData defaultData JSON_parse (Returns None) = defaultData
   \<and> loadData defaultData JSON_parse (Returns (Some [])) = defaultData
   \<and> (JSON_parse s = None \<longrightarrow> loadData defaultData JSON_parse (Returns (Some s)) = defaultData)
   \<and> (defaultData :: 'n jsobject) ''inbox'' = Some (JArr [])
   \<and> (defaultData :: 'n jsobject) ''projects'' = Some (JArr [])
   \<and> (defaultData :: 'n jsobject) ''tasks'' = Some (JArr [])
   \<and> (defaultData :: 'n jsobject) ''ideas'' = Some (JArr [])
   \<and> (defaultData :: 'n jsobject) ''contacts'' = Some (JArr [])
   \<and> (defaultData :: 'n jsobject) ''settings'' = Some (JObj [(''darkMode'', JBool True), (''apiKey'', JStr [])])
   \<and> (s \<noteq> [] \<and> JSON_parse s = Some (v :: 'n json) \<longrightarrow>
         (\<forall>k. k \<notin> fst ` set (ownEntries v) \<longrightarrow>
               loadData defaultData JSON_parse (Returns (Some s)) k = defaultData k)
       \<and> (\<forall>k. k \<in> fst ` set (ownEntries v) \<longrightarrow>
               loadData defaultData JSON_parse (Returns (Some s)) k = map_of (rev (ownEntries v)) k)
       \<and> (\<forall>k x. distinct (map fst (ownEntries v)) \<and> (k, x) \<in> set (ownEntries v) \<longrightarrow>
               loadData defaultData JSON_parse (Returns (Some s)) k = Some x))"
proof -
  have a: "loadData defaultData JSON_parse Throws = defaultData
   \<and> loadData defaultData JSON_parse (Returns None) = defaultData
   \<and> loadData defaultData JSON_parse (Returns (Some [])) = defaultData
   \<and> (JSON_parse s = None \<longrightarrow> loadData defaultData JSON_parse (Returns (Some s)) = defaultData)"
    by (simp add: loadData_def)
  have b: "(defaultData :: 'n jsobject) ''inbox'' = Some (JArr [])
   \<and> (defaultData :: 'n jsobject) ''projects'' = Some (JArr [])
   \<and> (defaultData :: 'n jsobject) ''tasks'' = Some (JArr [])
   \<and> (defaultData :: 'n jsobject) ''ideas'' = Some (JArr [])
   \<and> (defaultData :: 'n jsobject) ''contacts'' = Some (JArr [])
   \<and> (defaultData :: 'n jsobject) ''settings'' = Some (JObj [(''darkMode'', JBool True), (''apiKey'', JStr [])])"
    by (simp add: defaultData_def)
  have c: "s \<noteq> [] \<and> JSON_parse s = Some v \<longrightarrow>
         (\<forall>k. k \<notin> fst ` set (ownEntries v) \<longrightarrow>
               loadData defaultData JSON_parse (Returns (Some s)) k = defaultData k)
       \<and> (\<forall>k. k \<in> fst ` set (ownEntries v) \<longrightarrow>
               loadData defaultData JSON_parse (Returns (Some s)) k = map_of (rev (ownEntries v)) k)
       \<and> (\<forall>k x. distinct (map fst (ownEntries v)) \<and> (k, x) \<in> set (ownEntries v) \<longrightarrow>
               loadData defaultData JSON_parse (Returns (Some s)) k = Some x)"
  proof
    assume h: "s \<noteq> [] \<and> JSON_parse s = Some v"
    then have l: "loadData defaultData JSON_parse (Returns (Some s)) = spread defaultData v"
      by (simp add: loadData_def)
    show "(\<forall>k. k \<notin> fst ` set (ownEntries v) \<longrightarrow>
               loadData defaultData JSON_parse (Returns (Some s)) k = defaultData k)
       \<and> (\<forall>k. k \<in> fst ` set (ownEntries v) \<longrightarrow>
               loadData defaultData JSON_parse (Returns (Some s)) k = map_of (rev (ownEntries v)) k)
       \<and> (\<forall>k x. distinct (map fst (ownEntries v)) \<and> (k, x) \<in> set (ownEntries v) \<longrightarrow>
               loadData defaultData JSON_parse (Returns (Some s)) k = Some x)"
      unfolding l using spread_missing spread_last_wins spread_present by blast
  qed
  from a b c show ?thesis by blast
qed

theorem load_defaults_merge_witness:
  "exampleParse ''{\"tasks\":[],\"theme\":\"solar\"}'' = Some (JObj [(''tasks'', JArr []), (''theme'', JStr ''solar'')])
   \<and> loadData defaultData exampleParse (Returns (Some ''{\"tasks\":[],\"theme\":\"solar\"}'')) ''inbox'' = Some (JArr [])
   \<and> loadData defaultData exampleParse (Returns (Some ''{\"tasks\":[],\"theme\":\"solar\"}'')) ''theme'' = Some (JStr ''solar'')
   \<and> exampleParse ''{broken'' = None
   \<and> loadData defaultData exampleParse (Returns (Some ''{broken'')) = defaultData"
proof -
  let ?s = "''{\"tasks\":[],\"theme\":\"solar\"}''"
  let ?v = "JObj [(''tasks'', JArr []), (''theme'', JStr ''solar'')] :: int json"
  have p: "exampleParse ?s = Some ?v" by (simp add: exampleParse_def)
  have q: "exampleParse ''{broken'' = None" by (simp add: exampleParse_def)
  have ne: "?s \<noteq> []" by simp
  have m: "''inbox'' \<notin> fst ` set (ownEntries ?v)" by simp
  have e: "distinct (map fst (ownEntries ?v)) \<and> (''theme'', JStr ''solar'') \<in> set (ownEntries ?v)" by simp
  note t = load_defaults_merge [of exampleParse ?s ?v]
  from t q have "loadData defaultData exampleParse (Returns (Some ''{broken'')) = defaultData"
    using load_defaults_merge [of exampleParse "''{broken''" ?v] by blast
  moreover from t p ne m have "loadData defaultData exampleParse (Returns (Some ?s)) ''inbox'' = defaultData ''inbox''"
    by blast
  moreover from t p ne e have "loadData defaultData exampleParse (Returns (Some ?s)) ''theme'' = Some (JStr ''solar'')"
    by blast
  moreover have "(defaultData :: int jsobject) ''inbox'' = Some (JArr [])" using t by blast
  ultimately show ?thesis using p q by simp
qed



lemma contents_moduleLoaded: "contents moduleLoaded 0 = defaultData"
  by (rule ext) (simp add: contents_def moduleLoaded_def defaultData_def valueOf_def)

lemma foldl_setProperty:
  assumes "\<forall>k a. obj k = Some (Arr a) \<longrightarrow> a < n"
    and "foldl setProperty (obj, arrs, n) es = (obj', arrs', n')"
  shows "n \<le> n' \<and> (\<forall>a<n. arrs' a = arrs a) \<and> (\<forall>k a. obj' k = Some (Arr a) \<longrightarrow> a < n')
       \<and> (\<lambda>k. map_option (valueOf arrs') (obj' k))
           = foldl (\<lambda>m (k, x). m(k \<mapsto> x)) (\<lambda>k. map_option (valueOf arrs) (obj k)) es"
  using assms
proof (induction es arbitrary: obj arrs n)
  case Nil
  then show ?case by simp
next
  case (Cons e es)
  obtain k x where e: "e = (k, x)" by (cases e)
  obtain obj1 arrs1 n1 where step: "setProperty (obj, arrs, n) e = (obj1, arrs1, n1)"
    by (cases "setProperty (obj, arrs, n) e")
  have n1: "n \<le> n1" and keep: "\<forall>a<n. arrs1 a = arrs a"
    and refs: "\<forall>k a. obj1 k = Some (Arr a) \<longrightarrow> a < n1"
    using step Cons.prems(1) unfolding e
    by (fastforce simp: setProperty_def less_Suc_eq split: json.splits if_splits)+
  have view: "(\<lambda>k'. map_option (valueOf arrs1) (obj1 k'))
      = (\<lambda>k'. map_option (valueOf arrs) (obj k'))(k \<mapsto> x)"
  proof (rule ext)
    fix k'
    show "map_option (valueOf arrs1) (obj1 k') = ((\<lambda>k'. map_option (valueOf arrs) (obj k'))(k \<mapsto> x)) k'"
    proof (cases "k' = k")
      case True
      from step have "map_option (valueOf arrs1) (obj1 k) = Some x"
        unfolding e by (cases x) (auto simp: setProperty_def valueOf_def)
      with True show ?thesis by simp
    next
      case False
      from step have same: "obj1 k' = obj k'"
        unfolding e using False by (cases x) (auto simp: setProperty_def)
      have "map_option (valueOf arrs1) (obj k') = map_option (valueOf arrs) (obj k')"
      proof (cases "obj k'")
        case None
        then show ?thesis by simp
      next
        case (Some sl)
        show ?thesis
        proof (cases sl)
          case (Arr a)
          with Some Cons.prems(1) have "a < n" by simp
          with keep have "arrs1 a = arrs a" by simp
          with Some Arr show ?thesis by (simp add: valueOf_def)
        next
          case (Val y)
          with Some show ?thesis by (simp add: valueOf_def)
        qed
      qed
      with same False show ?thesis by simp
    qed
  qed
  from Cons.prems(2) step have rest: "foldl setProperty (obj1, arrs1, n1) es = (obj', arrs', n')"
    by simp
  from Cons.IH [OF refs rest]
  have ih: "n1 \<le> n' \<and> (\<forall>a<n1. arrs' a = arrs1 a) \<and> (\<forall>k a. obj' k = Some (Arr a) \<longrightarrow> a < n')
       \<and> (\<lambda>k. map_option (valueOf arrs') (obj' k))
           = foldl (\<lambda>m (k, x). m(k \<mapsto> x)) (\<lambda>k. map_option (valueOf arrs1) (obj1 k)) es" .
  have "n \<le> n'" using n1 ih by simp
  moreover have "\<forall>a<n. arrs' a = arrs a" using n1 keep ih by auto
  moreover have "(\<lambda>k. map_option (valueOf arrs') (obj' k))
           = foldl (\<lambda>m (k, x). m(k \<mapsto> x)) (\<lambda>k. map_option (valueOf arrs) (obj k)) (e # es)"
    using ih by (simp add: view e)
  ultimately show ?case using ih by blast
qed

lemma spreadNew_contents:
  assumes "sound s"
  shows "contents (spreadNew s v) (stateRef (spreadNew s v)) = spread (contents s 0) v"
    and "contents (spreadNew s v) 0 = contents s 0"
    and "sound (spreadNew s v)"
proof -
  obtain obj arrs n where f: "foldl setProperty (objects s 0, arrays s, Suc (nextFree s)) (ownEntries v) = (obj, arrs, n)"
    by (cases "foldl setProperty (objects s 0, arrays s, Suc (nextFree s)) (ownEntries v)")
  have refs: "\<forall>k a. objects s 0 k = Some (Arr a) \<longrightarrow> a < Suc (nextFree s)"
    using assms by (auto simp: sound_def less_Suc_eq)
  note r = foldl_setProperty [OF refs f]
  have new: "spreadNew s v = s\<lparr>objects := (objects s)(nextFree s := obj), arrays := arrs, nextFree := n,
            stateRef := nextFree s\<rparr>"
    by (simp add: spreadNew_def f)
  show "contents (spreadNew s v) (stateRef (spreadNew s v)) = spread (contents s 0) v"
    using r by (simp add: new contents_def spread_def)
  have pos: "0 < nextFree s" using assms by (simp add: sound_def)
  have same: "\<forall>k a. objects s 0 k = Some (Arr a) \<longrightarrow> arrs a = arrays s a"
    using r refs by auto
  show "contents (spreadNew s v) 0 = contents s 0"
  proof (rule ext)
    fix k
    show "contents (spreadNew s v) 0 k = contents s 0 k"
      using pos same by (cases "objects s 0 k") (auto simp: new contents_def valueOf_def split: slot.splits)
  qed
  have "\<And>k a. objects s 0 k = Some (Arr a) \<Longrightarrow> a < n"
  proof -
    fix k a
    assume "objects s 0 k = Some (Arr a)"
    with assms have "a < nextFree s" by (auto simp: sound_def)
    with r show "a < n" by simp
  qed
  with pos r show "sound (spreadNew s v)"
    by (simp add: new sound_def)
qed

lemma sound_moduleLoaded: "sound moduleLoaded"
  by (simp add: sound_def moduleLoaded_def)

lemma startup_contents:
  "contents (startup JSON_parse got) (stateRef (startup JSON_parse got)) = loadData defaultData JSON_parse got"
proof -
  have a: "contents moduleLoaded (stateRef moduleLoaded) = defaultData"
    using contents_moduleLoaded by (simp add: moduleLoaded_def)
  have b: "\<And>v. contents (spreadNew moduleLoaded v) (stateRef (spreadNew moduleLoaded v)) = spread defaultData v"
    using spreadNew_contents(1) [OF sound_moduleLoaded] by (simp add: contents_moduleLoaded)
  show ?thesis
    by (simp add: startup_def loadData_def a b split: outcome.splits option.splits)
qed

lemma import_invalid:
  "JSON_parse content = None \<Longrightarrow>
     importFile_change JSON_parse navigateOk (Some content) s
       = s\<lparr>shown := shown s @ [(''Invalid file format'', ''error'')]\<rparr>"
  by (simp add: importFile_change_def)

lemma import_valid:
  assumes "sound s" and "JSON_parse content = Some v"
  shows "stateValue (importFile_change JSON_parse navigateOk (Some content) s) = spread (contents s 0) v"
    and "contents (importFile_change JSON_parse navigateOk (Some content) s) 0 = contents s 0"
    and "sound (importFile_change JSON_parse navigateOk (Some content) s)"
proof -
  note n = spreadNew_contents [OF assms(1), of v]
  show "stateValue (importFile_change JSON_parse navigateOk (Some content) s) = spread (contents s 0) v"
    using n(1) assms(2) by (simp add: importFile_change_def stateValue_def contents_def Let_def)
  show "contents (importFile_change JSON_parse navigateOk (Some content) s) 0 = contents s 0"
    using n(2) assms(2) by (simp add: importFile_change_def contents_def Let_def)
  show "sound (importFile_change JSON_parse navigateOk (Some content) s)"
    using n(3) assms(2) by (simp add: importFile_change_def sound_def Let_def)
qed

lemma pushInbox_sound: "sound s \<Longrightarrow> pushInbox item s = Some s' \<Longrightarrow> sound s'"
  by (auto simp: pushInbox_def sound_def split: option.splits slot.splits)

lemma pushInbox_aliased:
  assumes "stateRef s = 0" and "pushInbox item s = Some s'"
  shows "\<exists>items. contents s 0 ''inbox'' = Some (JArr items)
           \<and> contents s' 0 ''inbox'' = Some (JArr (items @ [item]))"
proof -
  from assms obtain a where a: "objects s 0 ''inbox'' = Some (Arr a)"
    and s': "s' = s\<lparr>arrays := (arrays s)(a := arrays s a @ [item])\<rparr>"
    by (auto simp: pushInbox_def split: option.splits slot.splits)
  have "contents s 0 ''inbox'' = Some (JArr (arrays s a))"
    by (simp add: contents_def valueOf_def a)
  moreover have "contents s' 0 ''inbox'' = Some (JArr (arrays s a @ [item]))"
    by (simp add: contents_def valueOf_def a s')
  ultimately show ?thesis by blast
qed

text \<open>
  Claim C7 says that an import of valid JSON merges the imported top-level keys over the
  defaults, by the rule of \<^verbatim>\<open>loadData\<close>, so that a key the file lacks has its default.
  When nothing is stored as the program starts, \<^verbatim>\<open>state\<close> is the object \<^verbatim>\<open>defaultData\<close>
  itself, and the item that the user then captures is pushed onto the inbox array of
  \<^verbatim>\<open>defaultData\<close>. The import of a file without an inbox then leaves the captured item in
  the inbox, where \<^verbatim>\<open>loadData\<close> gives the same text the empty inbox. (The other half of
  the claim, that content which does not parse leaves the state as it was and shows the
  error toast, is \<open>import_invalid\<close>.)
\<close>

theorem import_keeps_captured_item:
  "stateRef (startup exampleParse (Returns None)) = 0
   \<and> exampleParse ''{\"tasks\":[],\"theme\":\"solar\"}'' = Some (JObj [(''tasks'', JArr []), (''theme'', JStr ''solar'')])
   \<and> map_option (\<lambda>s. stateValue (importExample s) ''inbox'') afterCapture
        = Some (Some (JArr [inboxItemJson capturedItem]))
   \<and> map_option (\<lambda>s. stateValue (importExample s) ''tasks'') afterCapture = Some (Some (JArr []))
   \<and> loadData defaultData exampleParse (Returns (Some ''{\"tasks\":[],\"theme\":\"solar\"}'')) ''inbox''
        = Some (JArr [])"
proof -
  have a: "stateRef (startup exampleParse (Returns None) :: int session) = 0"
    by (simp add: startup_def moduleLoaded_def)
  have p: "exampleParse ''{\"tasks\":[],\"theme\":\"solar\"}'' = Some (JObj [(''tasks'', JArr []), (''theme'', JStr ''solar'')])"
    by (simp add: exampleParse_def)
  have c: "afterCapture = Some ((moduleLoaded :: int session)\<lparr>arrays := (\<lambda>a. [])(1 := [inboxItemJson capturedItem])\<rparr>)"
    by (simp add: afterCapture_def pushInbox_def startup_def moduleLoaded_def)
  have i: "stateValue (importExample ((moduleLoaded :: int session)\<lparr>arrays := (\<lambda>a. [])(1 := [inboxItemJson capturedItem])\<rparr>)) ''inbox''
      = Some (JArr [inboxItemJson capturedItem])"
    by (simp add: importExample_def importFile_change_def p spreadNew_def setProperty_def
        stateValue_def contents_def valueOf_def moduleLoaded_def alwaysOk_def Let_def)
  have t: "stateValue (importExample ((moduleLoaded :: int session)\<lparr>arrays := (\<lambda>a. [])(1 := [inboxItemJson capturedItem])\<rparr>)) ''tasks''
      = Some (JArr [])"
    by (simp add: importExample_def importFile_change_def p spreadNew_def setProperty_def
        stateValue_def contents_def valueOf_def moduleLoaded_def alwaysOk_def Let_def)
  have l: "loadData defaultData exampleParse (Returns (Some ''{\"tasks\":[],\"theme\":\"solar\"}'')) ''inbox''
        = Some (JArr [] :: int json)"
    by (simp add: loadData_def p spread_def defaultData_def)
  have m1: "map_option (\<lambda>s. stateValue (importExample s) ''inbox'') afterCapture
        = Some (Some (JArr [inboxItemJson capturedItem]))"
    by (simp only: c option.map i)
  have m2: "map_option (\<lambda>s. stateValue (importExample s) ''tasks'') afterCapture = Some (Some (JArr []))"
    by (simp only: c option.map t)
  from a p m1 m2 l show ?thesis by blast
qed


end
